theory Spec2Isabelle
  imports Complex_Main "HOL-Library.Sublist"
begin

section \<open>Values\<close>

text \<open>
  A JavaScript number is an IEEE 754 double, and a finite double is a rational. The
  model takes \<open>number\<close> to be the rationals; the numbers of the program are the
  rationals that are doubles. A rational that is not a double is printed as the double
  nearest to it (\<open>to_double\<close>: round to nearest, ties to even), which is what a number
  literal or a JSON number of that value becomes when it is read. \<open>NaN\<close> is outside
  the model; \<open>z.number()\<close> rejects it.
\<close>

type_synonym number = rat

text \<open>
  \<open>Number.isSafeInteger\<close>: an integer of magnitude at most \<open>2^53 - 1\<close>. Every safe
  integer is a double.
\<close>

definition is_safe_integer :: "number \<Rightarrow> bool" where
  "is_safe_integer x \<longleftrightarrow> of_int \<lfloor>x\<rfloor> = x \<and> - (2 ^ 53 - 1) \<le> x \<and> x \<le> 2 ^ 53 - 1"

text \<open>The decimal representation of an integer: its digits, after a minus sign if negative.\<close>

definition digit_char :: "nat \<Rightarrow> char" where
  "digit_char d = ''0123456789'' ! (d mod 10)"

fun nat_to_string :: "nat \<Rightarrow> string" where
  "nat_to_string n =
     (if n < 10 then [digit_char n] else nat_to_string (n div 10) @ [digit_char (n mod 10)])"

declare nat_to_string.simps [simp del]

definition decimal_representation :: "int \<Rightarrow> string" where
  "decimal_representation n =
     (if n < 0 then CHR ''-'' # nat_to_string (nat (- n)) else nat_to_string (nat n))"

text \<open>The number a string of decimal digits denotes.\<close>

definition digit_value :: "char \<Rightarrow> nat" where
  "digit_value c = of_char c - 48"

definition decimal_value :: "string \<Rightarrow> nat" where
  "decimal_value s = foldl (\<lambda>a c. 10 * a + digit_value c) 0 s"

text \<open>
  Rounding a positive rational to a double. \<open>floor_log2 x\<close> is the exponent \<open>e\<close> with
  \<open>2^e \<le> x < 2^(e+1)\<close>, found from the bit lengths of numerator and denominator; a
  double has 53 significant bits, and below \<open>2^-1022\<close> the spacing stays \<open>2^-1074\<close>.
\<close>

fun bit_length :: "nat \<Rightarrow> nat" where
  "bit_length n = (if n = 0 then 0 else Suc (bit_length (n div 2)))"

declare bit_length.simps [simp del]

definition power_of :: "nat \<Rightarrow> int \<Rightarrow> rat" where
  "power_of b e = (if 0 \<le> e then of_nat b ^ nat e else 1 / of_nat b ^ nat (- e))"

definition floor_log2 :: "rat \<Rightarrow> int" where
  "floor_log2 x =
     (let e = int (bit_length (nat (fst (quotient_of x))))
            - int (bit_length (nat (snd (quotient_of x))))
      in if power_of 2 e \<le> x then e else e - 1)"

definition floor_log10 :: "rat \<Rightarrow> int" where
  "floor_log10 x =
     (let e = int (length (nat_to_string (nat (fst (quotient_of x)))))
            - int (length (nat_to_string (nat (snd (quotient_of x)))))
      in if power_of 10 e \<le> x then e else e - 1)"

definition round_half_even :: "rat \<Rightarrow> int" where
  "round_half_even x =
     (let f = \<lfloor>x\<rfloor>; d = x - of_int f
      in if d < 1 / 2 then f else if 1 / 2 < d then f + 1 else if even f then f else f + 1)"

definition to_double :: "rat \<Rightarrow> rat" where
  "to_double x =
     (let q = power_of 2 (max (floor_log2 x) (- 1022) - 52)
      in of_int (round_half_even (x / q)) * q)"

text \<open>
  \<open>Number::toString\<close> of ECMAScript, for a positive double \<open>x\<close>. It takes integers
  \<open>n\<close>, \<open>k\<close> and \<open>s\<close> with \<open>10^(k-1) \<le> s < 10^k\<close> such that \<open>s * 10^(n-k)\<close> rounds to
  \<open>x\<close>, with \<open>k\<close> as small as possible and, for that \<open>k\<close>, \<open>s * 10^(n-k)\<close> closest to \<open>x\<close>;
  seventeen digits always suffice. \<open>candidates x k\<close> are the pairs \<open>(n, s)\<close> for \<open>k\<close>
  digits. The text is the digits of \<open>s\<close> padded with zeros when \<open>k \<le> n \<le> 21\<close>, the digits
  with a decimal point when \<open>0 < n \<le> 21\<close> or \<open>-6 < n \<le> 0\<close>, and exponent notation
  otherwise.
\<close>

definition candidates :: "rat \<Rightarrow> nat \<Rightarrow> (int \<times> int) list" where
  "candidates x k =
     filter
       (\<lambda>(n, s). 10 ^ (k - 1) \<le> s \<and> s < 10 ^ k
          \<and> to_double (of_int s * power_of 10 (n - int k)) = x)
       (concat
          (map (\<lambda>n. [(n, \<lfloor>x / power_of 10 (n - int k)\<rfloor>),
                     (n, \<lfloor>x / power_of 10 (n - int k)\<rfloor> + 1)])
             [floor_log10 x + 1, floor_log10 x + 2]))"

fun closest :: "rat \<Rightarrow> nat \<Rightarrow> (int \<times> int) list \<Rightarrow> (int \<times> int) option" where
  "closest x k [] = None"
| "closest x k (c # cs) =
     (case closest x k cs of
        None \<Rightarrow> Some c
      | Some c' \<Rightarrow>
          (let d = \<bar>of_int (snd c) * power_of 10 (fst c - int k) - x\<bar>;
               d' = \<bar>of_int (snd c') * power_of 10 (fst c' - int k) - x\<bar>
           in if d < d' \<or> (d = d' \<and> even (snd c)) then Some c else Some c'))"

fun shortest :: "rat \<Rightarrow> nat list \<Rightarrow> (int \<times> nat \<times> int) option" where
  "shortest x [] = None"
| "shortest x (k # ks) =
     (case closest x k (candidates x k) of
        Some (n, s) \<Rightarrow> Some (n, k, s)
      | None \<Rightarrow> shortest x ks)"

definition render :: "int \<Rightarrow> nat \<Rightarrow> int \<Rightarrow> string" where
  "render n k s =
     (let digits = nat_to_string (nat s)
      in if int k \<le> n \<and> n \<le> 21 then digits @ replicate (nat (n - int k)) CHR ''0''
         else if 0 < n \<and> n \<le> 21 then take (nat n) digits @ ''.'' @ drop (nat n) digits
         else if - 6 < n \<and> n \<le> 0 then ''0.'' @ replicate (nat (- n)) CHR ''0'' @ digits
         else (if k = 1 then digits else take 1 digits @ ''.'' @ drop 1 digits)
              @ ''e'' @ (if 0 \<le> n - 1 then ''+'' else ''-'') @ nat_to_string (nat \<bar>n - 1\<bar>))"

definition positive_to_string :: "rat \<Rightarrow> string" where
  "positive_to_string x =
     (if 2 ^ 1024 \<le> to_double x then ''Infinity''
      else case shortest (to_double x)
                  [1, 2, 3, 4, 5, 6, 7, 8, 9, 10, 11, 12, 13, 14, 15, 16, 17] of
             Some (n, k, s) \<Rightarrow> render n k s
           | None \<Rightarrow> [])"

text \<open>
  \<open>String(x)\<close> and the interpolation \<open>${x}\<close> of a number. For a safe integer the digits
  are exact and \<open>k \<le> n \<le> 21\<close>, so the text is the decimal representation; the
  definition says so directly. Zero, of either sign, prints as \<open>0\<close>; a rational too
  small for a double is zero. A double from \<open>2^1024\<close> on does not exist: such a number
  is \<open>Infinity\<close>.
\<close>

definition number_to_string :: "number \<Rightarrow> string" where
  "number_to_string x =
     (if is_safe_integer x then decimal_representation \<lfloor>x\<rfloor>
      else if to_double \<bar>x\<bar> = 0 then ''0''
      else if x < 0 then CHR ''-'' # positive_to_string (- x)
      else positive_to_string x)"

text \<open>Decoded JSON. An object is its list of members, in order; keys are unique.\<close>

datatype json =
    JNull
  | JBool bool
  | JNum number
  | JStr string
  | JArr "json list"
  | JObj "(string \<times> json) list"

section \<open>Schemas\<close>

text \<open>
  The part of zod the repository uses. \<open>SObject\<close> lists the members of \<open>z.object\<close> in
  declaration order, each with a flag that is \<open>True\<close> for a required member and
  \<open>False\<close> for one declared \<open>.optional()\<close>; \<open>SNullable\<close> is \<open>.nullable()\<close>.
  \<open>parse\<close> is \<open>Schema.parse\<close>: \<open>None\<close> is the thrown \<open>ZodError\<close>. An object schema
  keeps the declared members and strips the others; nothing is coerced and nothing
  is defaulted.
\<close>

datatype shape =
    SString
  | SNumber
  | SBoolean
  | SEnum "string list"
  | SUnion "shape list"
  | SArray shape
  | SRecord shape
  | SObject "(string \<times> bool \<times> shape) list"
  | SNullable shape

fun parse :: "shape \<Rightarrow> json \<Rightarrow> json option"
  and parse_union :: "shape list \<Rightarrow> json \<Rightarrow> json option"
  and parse_fields :: "(string \<times> bool \<times> shape) list \<Rightarrow> (string \<times> json) list
        \<Rightarrow> (string \<times> json) list option"
where
  "parse SString j = (case j of JStr s \<Rightarrow> Some (JStr s) | _ \<Rightarrow> None)"
| "parse SNumber j = (case j of JNum n \<Rightarrow> Some (JNum n) | _ \<Rightarrow> None)"
| "parse SBoolean j = (case j of JBool b \<Rightarrow> Some (JBool b) | _ \<Rightarrow> None)"
| "parse (SEnum vs) j =
     (case j of JStr s \<Rightarrow> if s \<in> set vs then Some (JStr s) else None | _ \<Rightarrow> None)"
| "parse (SUnion ts) j = parse_union ts j"
| "parse (SArray t) j =
     (case j of JArr xs \<Rightarrow> map_option JArr (those (map (parse t) xs)) | _ \<Rightarrow> None)"
| "parse (SRecord t) j =
     (case j of
        JObj kvs \<Rightarrow>
          map_option JObj
            (those (map (\<lambda>kv. map_option (Pair (fst kv)) (parse t (snd kv))) kvs))
      | _ \<Rightarrow> None)"
| "parse (SObject fs) j = (case j of JObj kvs \<Rightarrow> map_option JObj (parse_fields fs kvs) | _ \<Rightarrow> None)"
| "parse (SNullable t) j = (case j of JNull \<Rightarrow> Some JNull | _ \<Rightarrow> parse t j)"
| "parse_union [] j = None"
| "parse_union (t # ts) j = (case parse t j of Some v \<Rightarrow> Some v | None \<Rightarrow> parse_union ts j)"
| "parse_fields [] kvs = Some []"
| "parse_fields (f # fs) kvs =
     (case map_of kvs (fst f) of
        None \<Rightarrow> if fst (snd f) then None else parse_fields fs kvs
      | Some x \<Rightarrow>
          (case parse (snd (snd f)) x of
             None \<Rightarrow> None
           | Some v \<Rightarrow> map_option (Cons (fst f, v)) (parse_fields fs kvs)))"

section \<open>Errors\<close>

text \<open>
  The classified errors of \<open>common/errors\<close>, by the names \<open>index.ts\<close> imports, each with
  the fields particular to its kind, and zod's \<open>ZodError\<close>. A rate-limit error carries
  the reset time, a timeout the configured duration, a network error the transport's
  error code, a validation error its message and the response body if any, the
  residual \<open>GitHubError\<close> the status and the body.
\<close>

type_synonym timestamp = int

datatype error =
    GitHubError nat "json option"
  | GitHubValidationError string "json option"
  | GitHubResourceNotFoundError
  | GitHubAuthenticationError
  | GitHubPermissionError
  | GitHubRateLimitError "timestamp option"
  | GitHubConflictError
  | GitHubTimeoutError nat
  | GitHubNetworkError string
  | ZodError

section \<open>Requests\<close>

text \<open>
  A URL is kept as its resource path and the list of its query parameters, in order,
  as \<open>url.searchParams\<close> shows them: keys and values before percent-encoding.
\<close>

record url =
  base :: string
  query :: "(string \<times> string) list"

datatype http_verb = GET | POST

record request =
  url :: url
  http_method :: http_verb
  body :: "json option"

datatype qvalue = QString string | QNumber number | QBoolean bool

fun qvalue_to_string :: "qvalue \<Rightarrow> string" where
  "qvalue_to_string (QString s) = s"
| "qvalue_to_string (QNumber n) = number_to_string n"
| "qvalue_to_string (QBoolean b) = (if b then ''true'' else ''false'')"

fun defined_params :: "(string \<times> qvalue option) list \<Rightarrow> (string \<times> string) list" where
  "defined_params [] = []"
| "defined_params ((k, None) # ps) = defined_params ps"
| "defined_params ((k, Some v) # ps) = (k, qvalue_to_string v) # defined_params ps"

text \<open>
  Modelled from the spec: \<open>buildUrl\<close> of \<open>common/utils\<close>, which is not among the
  sources. Given a base resource path and a mapping of optional query keys to values,
  it produces a URL containing only the keys whose value is defined, in the
  declaration order of the mapping; booleans are serialized as \<open>true\<close> and \<open>false\<close>,
  numbers and strings by the standard string conversion.
\<close>

definition buildUrl :: "string \<Rightarrow> (string \<times> qvalue option) list \<Rightarrow> url" where
  "buildUrl b params = \<lparr>base = b, query = defined_params params\<rparr>"

text \<open>A URL written as a plain string in the source has no query parameters.\<close>

definition plain_url :: "string \<Rightarrow> url" where
  "plain_url b = \<lparr>base = b, query = []\<rparr>"

section \<open>The HTTP adapter\<close>

text \<open>
  What the network does with a request: no response within the timeout, a transport
  failure with its error code, or a response. Of a response the adapter reads the
  status, the remaining rate-limit quota header, the rate-limit reset header and the
  body (\<open>None\<close> when empty, otherwise the decoded JSON).
\<close>

record http_response =
  http_status :: nat
  rate_limit_remaining :: "string option"
  rate_limit_reset :: "string option"
  response_body :: "json option"

datatype transport_result =
    TimedOut
  | TransportFailure string
  | Responded http_response

text \<open>
  Modelled from the spec: the collaborators of \<open>operations/actions.ts\<close> that are not
  among the sources, as parameters. They are the two name validators of
  \<open>common/utils\<close>, which return the name or raise; the network and the configuration of
  the adapter; and the response schemas of \<open>common/types\<close>, one typed shape per endpoint
  (strings, numbers, enumerations, nested objects and arrays, optional and variant
  fields), against which a response is validated on receipt: fields the shape does
  not name are ignored, a missing required field or a wrong type is a hard failure.
\<close>

record env =
  validateOwnerName :: "string \<Rightarrow> error + string"
  validateRepositoryName :: "string \<Rightarrow> error + string"
  transport :: "request \<Rightarrow> transport_result"
  timeoutMs :: nat
  parse_reset :: "string \<Rightarrow> timestamp"
  validation_shaped :: "json option \<Rightarrow> bool"
  validation_message :: "json option \<Rightarrow> string"
  WorkflowsSchema :: shape
  WorkflowSchema :: shape
  WorkflowUsageSchema :: shape
  WorkflowRunsSchema :: shape
  WorkflowRunSchema :: shape
  JobsSchema :: shape

text \<open>
  Modelled from the spec: the status inspection of \<open>githubRequest\<close> (\<open>common/utils\<close>, not
  among the sources). 401 is an authentication error; 403 is a permission error,
  unless the remaining rate-limit quota is zero, in which case it is a rate-limit
  error carrying the reset time parsed from the reset header; 404 is not-found; 409 a
  conflict; 422 and other 4xx responses with a validation-shaped body are validation
  errors carrying the body; any other non-2xx status is the generic error with status
  and body; a 2xx response gives \<open>null\<close> for an empty body and the decoded JSON
  otherwise.
\<close>

definition classify_response :: "env \<Rightarrow> http_response \<Rightarrow> error + json" where
  "classify_response E r =
     (let st = http_status r in
      if 200 \<le> st \<and> st < 300 then
        (case response_body r of None \<Rightarrow> Inr JNull | Some j \<Rightarrow> Inr j)
      else if st = 401 then Inl GitHubAuthenticationError
      else if st = 403 then
        (if rate_limit_remaining r = Some ''0''
         then Inl (GitHubRateLimitError (map_option (parse_reset E) (rate_limit_reset r)))
         else Inl GitHubPermissionError)
      else if st = 404 then Inl GitHubResourceNotFoundError
      else if st = 409 then Inl GitHubConflictError
      else if st = 422 \<or> (400 \<le> st \<and> st < 500 \<and> validation_shaped E (response_body r)) then
        Inl (GitHubValidationError (validation_message E (response_body r)) (response_body r))
      else Inl (GitHubError st (response_body r)))"

text \<open>
  Modelled from the spec: \<open>githubRequest\<close>. It issues the request, which is recorded in
  the list of the requests sent so far, and awaits the response within the timeout: a
  timeout raises a timeout error carrying the configured value, a transport failure
  a network error carrying the transport's code, a response is classified by status.
\<close>

type_synonym 'a io = "request list \<Rightarrow> (error + 'a) \<times> request list"

definition githubRequest :: "env \<Rightarrow> request \<Rightarrow> json io" where
  "githubRequest E rq sent =
     ((case transport E rq of
         TimedOut \<Rightarrow> Inl (GitHubTimeoutError (timeoutMs E))
       | TransportFailure code \<Rightarrow> Inl (GitHubNetworkError code)
       | Responded r \<Rightarrow> classify_response E r),
      sent @ [rq])"

text \<open>\<open>Schema.parse(response)\<close>: the parsed payload, or zod's error.\<close>

definition schema_parse :: "shape \<Rightarrow> json \<Rightarrow> error + json" where
  "schema_parse sch j = (case parse sch j of None \<Rightarrow> Inl ZodError | Some v \<Rightarrow> Inr v)"

section \<open>Operations\<close>

text \<open>
  \<open>operations/actions.ts\<close>. Each operation validates the owner, then the repository
  name, builds the URL, calls the adapter and, for a read, parses the response. A
  raise of a validator or of the adapter ends the operation with that error; the
  second component of the result is the list of the requests sent.
\<close>

datatype workflow_id = WfString string | WfNumber number

fun workflow_id_to_string :: "workflow_id \<Rightarrow> string" where
  "workflow_id_to_string (WfString s) = s"
| "workflow_id_to_string (WfNumber n) = number_to_string n"

text \<open>
  JavaScript's truthiness of an optional \<open>string | number\<close>: \<open>undefined\<close>, the empty
  string and zero are falsy. (\<open>NaN\<close>, falsy too, is rejected by \<open>z.number()\<close>.)
\<close>

fun truthy :: "workflow_id option \<Rightarrow> bool" where
  "truthy None = False"
| "truthy (Some (WfString s)) = (s \<noteq> [])"
| "truthy (Some (WfNumber n)) = (n \<noteq> 0)"

text \<open>The interpolation \<open>${options.workflowId}\<close>; \<open>undefined\<close> prints as its name.\<close>

fun interpolate :: "workflow_id option \<Rightarrow> string" where
  "interpolate None = ''undefined''"
| "interpolate (Some w) = workflow_id_to_string w"

record list_runs_options =
  workflowId :: "workflow_id option"
  actor :: "string option"
  branch :: "string option"
  event :: "string option"
  status :: "string option"
  created :: "string option"
  excludePullRequests :: "bool option"
  checkSuiteId :: "number option"
  page :: "number option"
  perPage :: "number option"

record success_response =
  success :: bool
  message :: string

text \<open>List workflows in a repository.\<close>

definition listWorkflows ::
  "env \<Rightarrow> string \<Rightarrow> string \<Rightarrow> number option \<Rightarrow> number option \<Rightarrow> json io" where
  "listWorkflows E owner repo pg per sent =
     (case validateOwnerName E owner of
        Inl e \<Rightarrow> (Inl e, sent)
      | Inr owner \<Rightarrow>
     (case validateRepositoryName E repo of
        Inl e \<Rightarrow> (Inl e, sent)
      | Inr repo \<Rightarrow>
     (let url = buildUrl (''https://api.github.com/repos/'' @ owner @ ''/'' @ repo
                  @ ''/actions/workflows'')
                  [(''page'', map_option QNumber pg), (''per_page'', map_option QNumber per)]
      in case githubRequest E \<lparr>url = url, http_method = GET, body = None\<rparr> sent of
           (Inl e, sent') \<Rightarrow> (Inl e, sent')
         | (Inr response, sent') \<Rightarrow> (schema_parse (WorkflowsSchema E) response, sent'))))"

text \<open>Get a specific workflow by ID or filename.\<close>

definition getWorkflow :: "env \<Rightarrow> string \<Rightarrow> string \<Rightarrow> workflow_id \<Rightarrow> json io" where
  "getWorkflow E owner repo wid sent =
     (case validateOwnerName E owner of
        Inl e \<Rightarrow> (Inl e, sent)
      | Inr owner \<Rightarrow>
     (case validateRepositoryName E repo of
        Inl e \<Rightarrow> (Inl e, sent)
      | Inr repo \<Rightarrow>
     (let url = plain_url (''https://api.github.com/repos/'' @ owner @ ''/'' @ repo
                  @ ''/actions/workflows/'' @ workflow_id_to_string wid)
      in case githubRequest E \<lparr>url = url, http_method = GET, body = None\<rparr> sent of
           (Inl e, sent') \<Rightarrow> (Inl e, sent')
         | (Inr response, sent') \<Rightarrow> (schema_parse (WorkflowSchema E) response, sent'))))"

text \<open>Get usage statistics of a workflow.\<close>

definition getWorkflowUsage :: "env \<Rightarrow> string \<Rightarrow> string \<Rightarrow> workflow_id \<Rightarrow> json io" where
  "getWorkflowUsage E owner repo wid sent =
     (case validateOwnerName E owner of
        Inl e \<Rightarrow> (Inl e, sent)
      | Inr owner \<Rightarrow>
     (case validateRepositoryName E repo of
        Inl e \<Rightarrow> (Inl e, sent)
      | Inr repo \<Rightarrow>
     (let url = plain_url (''https://api.github.com/repos/'' @ owner @ ''/'' @ repo
                  @ ''/actions/workflows/'' @ workflow_id_to_string wid @ ''/timing'')
      in case githubRequest E \<lparr>url = url, http_method = GET, body = None\<rparr> sent of
           (Inl e, sent') \<Rightarrow> (Inl e, sent')
         | (Inr response, sent') \<Rightarrow> (schema_parse (WorkflowUsageSchema E) response, sent'))))"

text \<open>List workflow runs with filtering options.\<close>

definition listWorkflowRuns :: "env \<Rightarrow> string \<Rightarrow> string \<Rightarrow> list_runs_options \<Rightarrow> json io" where
  "listWorkflowRuns E owner repo options sent =
     (case validateOwnerName E owner of
        Inl e \<Rightarrow> (Inl e, sent)
      | Inr owner \<Rightarrow>
     (case validateRepositoryName E repo of
        Inl e \<Rightarrow> (Inl e, sent)
      | Inr repo \<Rightarrow>
     (let url =
        (if truthy (workflowId options)
         then ''https://api.github.com/repos/'' @ owner @ ''/'' @ repo @ ''/actions/workflows/''
                @ interpolate (workflowId options) @ ''/runs''
         else ''https://api.github.com/repos/'' @ owner @ ''/'' @ repo @ ''/actions/runs'');
          url = buildUrl url
            [(''actor'', map_option QString (actor options)),
             (''branch'', map_option QString (branch options)),
             (''event'', map_option QString (event options)),
             (''status'', map_option QString (status options)),
             (''created'', map_option QString (created options)),
             (''exclude_pull_requests'',
                if excludePullRequests options = Some True then Some (QString ''true'') else None),
             (''check_suite_id'', map_option QNumber (checkSuiteId options)),
             (''page'', map_option QNumber (page options)),
             (''per_page'', map_option QNumber (perPage options))]
      in case githubRequest E \<lparr>url = url, http_method = GET, body = None\<rparr> sent of
           (Inl e, sent') \<Rightarrow> (Inl e, sent')
         | (Inr response, sent') \<Rightarrow> (schema_parse (WorkflowRunsSchema E) response, sent'))))"

text \<open>Get details of a specific workflow run.\<close>

definition getWorkflowRun :: "env \<Rightarrow> string \<Rightarrow> string \<Rightarrow> number \<Rightarrow> json io" where
  "getWorkflowRun E owner repo runId sent =
     (case validateOwnerName E owner of
        Inl e \<Rightarrow> (Inl e, sent)
      | Inr owner \<Rightarrow>
     (case validateRepositoryName E repo of
        Inl e \<Rightarrow> (Inl e, sent)
      | Inr repo \<Rightarrow>
     (let url = plain_url (''https://api.github.com/repos/'' @ owner @ ''/'' @ repo
                  @ ''/actions/runs/'' @ number_to_string runId)
      in case githubRequest E \<lparr>url = url, http_method = GET, body = None\<rparr> sent of
           (Inl e, sent') \<Rightarrow> (Inl e, sent')
         | (Inr response, sent') \<Rightarrow> (schema_parse (WorkflowRunSchema E) response, sent'))))"

datatype jobs_filter = latest | all_jobs

fun jobs_filter_to_string :: "jobs_filter \<Rightarrow> string" where
  "jobs_filter_to_string latest = ''latest''"
| "jobs_filter_to_string all_jobs = ''all''"

text \<open>Get jobs for a specific workflow run.\<close>

definition getWorkflowRunJobs ::
  "env \<Rightarrow> string \<Rightarrow> string \<Rightarrow> number \<Rightarrow> jobs_filter option \<Rightarrow> number option
     \<Rightarrow> number option \<Rightarrow> json io" where
  "getWorkflowRunJobs E owner repo runId flt pg per sent =
     (case validateOwnerName E owner of
        Inl e \<Rightarrow> (Inl e, sent)
      | Inr owner \<Rightarrow>
     (case validateRepositoryName E repo of
        Inl e \<Rightarrow> (Inl e, sent)
      | Inr repo \<Rightarrow>
     (let url = buildUrl (''https://api.github.com/repos/'' @ owner @ ''/'' @ repo
                  @ ''/actions/runs/'' @ number_to_string runId @ ''/jobs'')
                  [(''filter'', map_option (QString \<circ> jobs_filter_to_string) flt),
                   (''page'', map_option QNumber pg), (''per_page'', map_option QNumber per)]
      in case githubRequest E \<lparr>url = url, http_method = GET, body = None\<rparr> sent of
           (Inl e, sent') \<Rightarrow> (Inl e, sent')
         | (Inr response, sent') \<Rightarrow> (schema_parse (JobsSchema E) response, sent'))))"

text \<open>
  Trigger a workflow run. The body starts as \<open>{ref}\<close>; \<open>inputs\<close> is added when it is
  given and has at least one key.
\<close>

definition inputs_to_json :: "(string \<times> string) list \<Rightarrow> json" where
  "inputs_to_json inputs = JObj (map (\<lambda>kv. (fst kv, JStr (snd kv))) inputs)"

definition triggerWorkflow ::
  "env \<Rightarrow> string \<Rightarrow> string \<Rightarrow> workflow_id \<Rightarrow> string \<Rightarrow> (string \<times> string) list option
     \<Rightarrow> success_response io" where
  "triggerWorkflow E owner repo wid ref inputs sent =
     (case validateOwnerName E owner of
        Inl e \<Rightarrow> (Inl e, sent)
      | Inr owner \<Rightarrow>
     (case validateRepositoryName E repo of
        Inl e \<Rightarrow> (Inl e, sent)
      | Inr repo \<Rightarrow>
     (let url = plain_url (''https://api.github.com/repos/'' @ owner @ ''/'' @ repo
                  @ ''/actions/workflows/'' @ workflow_id_to_string wid @ ''/dispatches'');
          body0 = [(''ref'', JStr ref)];
          body1 = (case inputs of
                     None \<Rightarrow> body0
                   | Some kvs \<Rightarrow>
                       if length (map fst kvs) > 0
                       then body0 @ [(''inputs'', inputs_to_json kvs)] else body0)
      in case githubRequest E \<lparr>url = url, http_method = POST, body = Some (JObj body1)\<rparr> sent of
           (Inl e, sent') \<Rightarrow> (Inl e, sent')
         | (Inr response, sent') \<Rightarrow>
             (Inr \<lparr>success = True,
                   message =
                     ''Workflow '' @ workflow_id_to_string wid @ '' triggered on '' @ ref\<rparr>,
              sent'))))"

text \<open>Cancel a workflow run.\<close>

definition cancelWorkflowRun :: "env \<Rightarrow> string \<Rightarrow> string \<Rightarrow> number \<Rightarrow> success_response io" where
  "cancelWorkflowRun E owner repo runId sent =
     (case validateOwnerName E owner of
        Inl e \<Rightarrow> (Inl e, sent)
      | Inr owner \<Rightarrow>
     (case validateRepositoryName E repo of
        Inl e \<Rightarrow> (Inl e, sent)
      | Inr repo \<Rightarrow>
     (let url = plain_url (''https://api.github.com/repos/'' @ owner @ ''/'' @ repo
                  @ ''/actions/runs/'' @ number_to_string runId @ ''/cancel'')
      in case githubRequest E \<lparr>url = url, http_method = POST, body = None\<rparr> sent of
           (Inl e, sent') \<Rightarrow> (Inl e, sent')
         | (Inr response, sent') \<Rightarrow>
             (Inr \<lparr>success = True,
                   message = ''Workflow run '' @ number_to_string runId @ '' cancelled''\<rparr>,
              sent'))))"

text \<open>Rerun a workflow run.\<close>

definition rerunWorkflowRun :: "env \<Rightarrow> string \<Rightarrow> string \<Rightarrow> number \<Rightarrow> success_response io" where
  "rerunWorkflowRun E owner repo runId sent =
     (case validateOwnerName E owner of
        Inl e \<Rightarrow> (Inl e, sent)
      | Inr owner \<Rightarrow>
     (case validateRepositoryName E repo of
        Inl e \<Rightarrow> (Inl e, sent)
      | Inr repo \<Rightarrow>
     (let url = plain_url (''https://api.github.com/repos/'' @ owner @ ''/'' @ repo
                  @ ''/actions/runs/'' @ number_to_string runId @ ''/rerun'')
      in case githubRequest E \<lparr>url = url, http_method = POST, body = None\<rparr> sent of
           (Inl e, sent') \<Rightarrow> (Inl e, sent')
         | (Inr response, sent') \<Rightarrow>
             (Inr \<lparr>success = True,
                   message = ''Workflow run '' @ number_to_string runId @ '' restarted''\<rparr>,
              sent'))))"

section \<open>Parameter schemas\<close>

text \<open>The schema definitions of \<open>operations/actions.ts\<close>, member by member.\<close>

definition ListWorkflowsSchema :: shape where
  "ListWorkflowsSchema =
     SObject
       [(''owner'', True, SString),
        (''repo'', True, SString),
        (''page'', False, SNumber),
        (''perPage'', False, SNumber)]"

definition GetWorkflowSchema :: shape where
  "GetWorkflowSchema =
     SObject
       [(''owner'', True, SString),
        (''repo'', True, SString),
        (''workflowId'', True, SUnion [SString, SNumber])]"

definition GetWorkflowUsageSchema :: shape where
  "GetWorkflowUsageSchema =
     GetWorkflowSchema"

definition ListWorkflowRunsSchema :: shape where
  "ListWorkflowRunsSchema =
     SObject
       [(''owner'', True, SString),
        (''repo'', True, SString),
        (''workflowId'', False, SUnion [SString, SNumber]),
        (''actor'', False, SString),
        (''branch'', False, SString),
        (''event'', False, SString),
        (''status'', False,
           SEnum [''completed'', ''action_required'', ''cancelled'', ''failure'', ''neutral'',
           ''skipped'', ''stale'', ''success'', ''timed_out'', ''in_progress'',
           ''queued'', ''requested'', ''waiting'', ''pending'']),
        (''created'', False, SString),
        (''excludePullRequests'', False, SBoolean),
        (''checkSuiteId'', False, SNumber),
        (''page'', False, SNumber),
        (''perPage'', False, SNumber)]"

definition GetWorkflowRunSchema :: shape where
  "GetWorkflowRunSchema =
     SObject
       [(''owner'', True, SString),
        (''repo'', True, SString),
        (''runId'', True, SNumber)]"

definition GetWorkflowRunJobsSchema :: shape where
  "GetWorkflowRunJobsSchema =
     SObject
       [(''owner'', True, SString),
        (''repo'', True, SString),
        (''runId'', True, SNumber),
        (''filter'', False, SEnum [''latest'', ''all'']),
        (''page'', False, SNumber),
        (''perPage'', False, SNumber)]"

definition TriggerWorkflowSchema :: shape where
  "TriggerWorkflowSchema =
     SObject
       [(''owner'', True, SString),
        (''repo'', True, SString),
        (''workflowId'', True, SUnion [SString, SNumber]),
        (''ref'', True, SString),
        (''inputs'', False, SRecord SString)]"

definition CancelWorkflowRunSchema :: shape where
  "CancelWorkflowRunSchema =
     SObject
       [(''owner'', True, SString),
        (''repo'', True, SString),
        (''runId'', True, SNumber)]"

definition RerunWorkflowSchema :: shape where
  "RerunWorkflowSchema =
     CancelWorkflowRunSchema"

section \<open>The tool surface\<close>

text \<open>
  \<open>index.ts\<close> registers each tool with \<open>server.tool(name, description, Schema.shape,
  handler)\<close>; the list below holds the registrations in the order of the file.
\<close>

record tool =
  tool_name :: string
  tool_description :: string
  tool_params :: shape

definition tools :: "tool list" where
  "tools =
     [\<lparr>tool_name = ''list_workflows'',
       tool_description = ''List workflows in a GitHub repository'',
       tool_params = ListWorkflowsSchema\<rparr>,
      \<lparr>tool_name = ''get_workflow'',
       tool_description = ''Get details of a specific workflow'',
       tool_params = GetWorkflowSchema\<rparr>,
      \<lparr>tool_name = ''get_workflow_usage'',
       tool_description = ''Get usage statistics of a workflow'',
       tool_params = GetWorkflowUsageSchema\<rparr>,
      \<lparr>tool_name = ''list_workflow_runs'',
       tool_description = ''List all workflow runs for a repository or a specific workflow'',
       tool_params = ListWorkflowRunsSchema\<rparr>,
      \<lparr>tool_name = ''get_workflow_run'',
       tool_description = ''Get details of a specific workflow run'',
       tool_params = GetWorkflowRunSchema\<rparr>,
      \<lparr>tool_name = ''get_workflow_run_jobs'',
       tool_description = ''Get details of a specific workflow run'',
       tool_params = GetWorkflowRunJobsSchema\<rparr>,
      \<lparr>tool_name = ''trigger_workflow'',
       tool_description = ''Trigger a workflow run'',
       tool_params = TriggerWorkflowSchema\<rparr>,
      \<lparr>tool_name = ''cancel_workflow_run'',
       tool_description = ''Cancel a workflow run'',
       tool_params = CancelWorkflowRunSchema\<rparr>,
      \<lparr>tool_name = ''rerun_workflow'',
       tool_description = ''Re-run a workflow run'',
       tool_params = RerunWorkflowSchema\<rparr>]"

text \<open>The required and the optional members of an object schema, in order.\<close>

fun required_params :: "shape \<Rightarrow> string list" where
  "required_params (SObject fs) = map fst (filter (\<lambda>f. fst (snd f)) fs)"
| "required_params _ = []"

fun optional_params :: "shape \<Rightarrow> string list" where
  "optional_params (SObject fs) = map fst (filter (\<lambda>f. \<not> fst (snd f)) fs)"
| "optional_params _ = []"

definition find_tool :: "string \<Rightarrow> tool option" where
  "find_tool n = find (\<lambda>t. tool_name t = n) tools"

section \<open>Calls\<close>

text \<open>
  A call of one of the nine operation functions with its arguments, as the tool
  handlers of \<open>index.ts\<close> make it, and its outcome: the typed payload of a read or the
  acknowledgment of a write.
\<close>

datatype operation_call =
    ListWorkflows string string "number option" "number option"
  | GetWorkflow string string workflow_id
  | GetWorkflowUsage string string workflow_id
  | ListWorkflowRuns string string list_runs_options
  | GetWorkflowRun string string number
  | GetWorkflowRunJobs string string number "jobs_filter option" "number option" "number option"
  | TriggerWorkflow string string workflow_id string "(string \<times> string) list option"
  | CancelWorkflowRun string string number
  | RerunWorkflowRun string string number

datatype operation_result = Payload json | Acknowledgment success_response

definition returning ::
  "('a \<Rightarrow> 'b) \<Rightarrow> (error + 'a) \<times> request list \<Rightarrow> (error + 'b) \<times> request list" where
  "returning f r = (case fst r of Inl e \<Rightarrow> (Inl e, snd r) | Inr x \<Rightarrow> (Inr (f x), snd r))"

fun run :: "env \<Rightarrow> operation_call \<Rightarrow> operation_result io" where
  "run E (ListWorkflows owner repo pg per) sent =
     returning Payload (listWorkflows E owner repo pg per sent)"
| "run E (GetWorkflow owner repo wid) sent = returning Payload (getWorkflow E owner repo wid sent)"
| "run E (GetWorkflowUsage owner repo wid) sent =
     returning Payload (getWorkflowUsage E owner repo wid sent)"
| "run E (ListWorkflowRuns owner repo options) sent =
     returning Payload (listWorkflowRuns E owner repo options sent)"
| "run E (GetWorkflowRun owner repo runId) sent =
     returning Payload (getWorkflowRun E owner repo runId sent)"
| "run E (GetWorkflowRunJobs owner repo runId flt pg per) sent =
     returning Payload (getWorkflowRunJobs E owner repo runId flt pg per sent)"
| "run E (TriggerWorkflow owner repo wid ref inputs) sent =
     returning Acknowledgment (triggerWorkflow E owner repo wid ref inputs sent)"
| "run E (CancelWorkflowRun owner repo runId) sent =
     returning Acknowledgment (cancelWorkflowRun E owner repo runId sent)"
| "run E (RerunWorkflowRun owner repo runId) sent =
     returning Acknowledgment (rerunWorkflowRun E owner repo runId sent)"

fun call_owner :: "operation_call \<Rightarrow> string" where
  "call_owner (ListWorkflows owner repo pg per) = owner"
| "call_owner (GetWorkflow owner repo wid) = owner"
| "call_owner (GetWorkflowUsage owner repo wid) = owner"
| "call_owner (ListWorkflowRuns owner repo options) = owner"
| "call_owner (GetWorkflowRun owner repo runId) = owner"
| "call_owner (GetWorkflowRunJobs owner repo runId flt pg per) = owner"
| "call_owner (TriggerWorkflow owner repo wid ref inputs) = owner"
| "call_owner (CancelWorkflowRun owner repo runId) = owner"
| "call_owner (RerunWorkflowRun owner repo runId) = owner"

fun call_repo :: "operation_call \<Rightarrow> string" where
  "call_repo (ListWorkflows owner repo pg per) = repo"
| "call_repo (GetWorkflow owner repo wid) = repo"
| "call_repo (GetWorkflowUsage owner repo wid) = repo"
| "call_repo (ListWorkflowRuns owner repo options) = repo"
| "call_repo (GetWorkflowRun owner repo runId) = repo"
| "call_repo (GetWorkflowRunJobs owner repo runId flt pg per) = repo"
| "call_repo (TriggerWorkflow owner repo wid ref inputs) = repo"
| "call_repo (CancelWorkflowRun owner repo runId) = repo"
| "call_repo (RerunWorkflowRun owner repo runId) = repo"

section \<open>An environment to run the operations in\<close>

text \<open>
  Modelled from the spec: the name validators of \<open>common/utils\<close>, which are not among
  the sources. They enforce the platform's naming rules: a name is not empty, stays
  within a length limit and uses allowed characters only, and an owner name neither
  starts nor ends with a hyphen. A violation raises a validation error whose message
  names the offending field. The spec gives neither the character sets nor the
  limits; they are parameters.
\<close>

definition validateOwnerName_rules :: "(char \<Rightarrow> bool) \<Rightarrow> nat \<Rightarrow> string \<Rightarrow> error + string" where
  "validateOwnerName_rules allowed limit owner =
     (if owner = [] \<or> limit < length owner \<or> \<not> list_all allowed owner
         \<or> hd owner = CHR ''-'' \<or> last owner = CHR ''-''
      then Inl (GitHubValidationError ''Invalid owner name'' None)
      else Inr owner)"

definition validateRepositoryName_rules :: "(char \<Rightarrow> bool) \<Rightarrow> nat \<Rightarrow> string \<Rightarrow> error + string" where
  "validateRepositoryName_rules allowed limit repo =
     (if repo = [] \<or> limit < length repo \<or> \<not> list_all allowed repo
      then Inl (GitHubValidationError ''Invalid repository name'' None)
      else Inr repo)"

definition alphanumeric :: "char \<Rightarrow> bool" where
  "alphanumeric c \<longleftrightarrow>
     c \<in> set ''abcdefghijklmnopqrstuvwxyzABCDEFGHIJKLMNOPQRSTUVWXYZ0123456789''"

definition owner_char :: "char \<Rightarrow> bool" where
  "owner_char c \<longleftrightarrow> alphanumeric c \<or> c = CHR ''-''"

definition repo_char :: "char \<Rightarrow> bool" where
  "repo_char c \<longleftrightarrow> alphanumeric c \<or> c \<in> set ''-_.''"

text \<open>
  An environment for concrete runs: the validators above with the platform's usual
  limits, a network that answers as \<open>net\<close> says, and small response schemas.
\<close>

definition example_env :: "(request \<Rightarrow> transport_result) \<Rightarrow> env" where
  "example_env net =
     \<lparr>validateOwnerName = validateOwnerName_rules owner_char 39,
      validateRepositoryName = validateRepositoryName_rules repo_char 100,
      transport = net,
      timeoutMs = 30000,
      parse_reset = (\<lambda>h. int (decimal_value h)),
      validation_shaped = (\<lambda>b. False),
      validation_message = (\<lambda>b. ''Validation Failed''),
      WorkflowsSchema =
        SObject [(''total_count'', True, SNumber),
                 (''workflows'', True,
                    SArray (SObject [(''id'', True, SNumber), (''name'', True, SString)]))],
      WorkflowSchema = SObject [(''id'', True, SNumber), (''name'', True, SString)],
      WorkflowUsageSchema = SObject [(''billable'', True, SRecord SNumber)],
      WorkflowRunsSchema =
        SObject [(''total_count'', True, SNumber),
                 (''workflow_runs'', True,
                    SArray (SObject [(''id'', True, SNumber), (''status'', False, SString)]))],
      WorkflowRunSchema = SObject [(''id'', True, SNumber), (''status'', False, SString)],
      JobsSchema =
        SObject [(''total_count'', True, SNumber),
                 (''jobs'', True,
                    SArray (SObject [(''id'', True, SNumber), (''name'', True, SString)]))]\<rparr>"

text \<open>Networks for concrete runs: one that never answers, and one with a fixed answer.\<close>

definition silent :: "request \<Rightarrow> transport_result" where
  "silent rq = TimedOut"

definition answering :: "http_response \<Rightarrow> request \<Rightarrow> transport_result" where
  "answering r rq = Responded r"

definition no_content :: http_response where
  "no_content =
     \<lparr>http_status = 204, rate_limit_remaining = None, rate_limit_reset = None,
      response_body = None\<rparr>"

definition ok_json :: "json \<Rightarrow> http_response" where
  "ok_json j =
     \<lparr>http_status = 200, rate_limit_remaining = Some ''4999'',
      rate_limit_reset = Some ''1700000000'',
      response_body = Some j\<rparr>"

text \<open>The default options bag \<open>{}\<close>: every member absent.\<close>

definition no_options :: list_runs_options where
  "no_options =
     \<lparr>workflowId = None, actor = None, branch = None, event = None, status = None,
      created = None, excludePullRequests = None, checkSuiteId = None, page = None,
      perPage = None\<rparr>"

text \<open>
  Two 403 responses, one with the rate-limit quota exhausted and one without, and a
  request to put to the adapter.
\<close>

definition exhausted :: http_response where
  "exhausted =
     \<lparr>http_status = 403, rate_limit_remaining = Some ''0'',
      rate_limit_reset = Some ''1700000000'',
      response_body = Some (JObj [(''message'', JStr ''API rate limit exceeded'')])\<rparr>"

definition forbidden :: http_response where
  "forbidden =
     \<lparr>http_status = 403, rate_limit_remaining = Some ''4998'',
      rate_limit_reset = Some ''1700000000'',
      response_body = Some (JObj [(''message'', JStr ''Resource not accessible'')])\<rparr>"

definition probe :: request where
  "probe =
     \<lparr>url = plain_url ''https://api.github.com/repos/octo/hello/actions/runs/7'',
      http_method = GET, body = None\<rparr>"

text \<open>The tool surface as a table: name, required parameters, optional parameters.\<close>

definition tool_surface :: "(string \<times> string list \<times> string list) list" where
  "tool_surface =
     map (\<lambda>t. (tool_name t, required_params (tool_params t), optional_params (tool_params t)))
       tools"

section \<open>Bodies and shapes\<close>

text \<open>
  A body matches a shape: it has the type the shape names, member by member; an
  object has every required member, and each declared member it has matches the
  member's shape. Further members are allowed.
\<close>

fun conforms :: "shape \<Rightarrow> json \<Rightarrow> bool" where
  "conforms SString j = (case j of JStr s \<Rightarrow> True | _ \<Rightarrow> False)"
| "conforms SNumber j = (case j of JNum n \<Rightarrow> True | _ \<Rightarrow> False)"
| "conforms SBoolean j = (case j of JBool b \<Rightarrow> True | _ \<Rightarrow> False)"
| "conforms (SEnum vs) j = (case j of JStr s \<Rightarrow> s \<in> set vs | _ \<Rightarrow> False)"
| "conforms (SUnion ts) j = (\<exists>t \<in> set ts. conforms t j)"
| "conforms (SArray t) j = (case j of JArr xs \<Rightarrow> list_all (conforms t) xs | _ \<Rightarrow> False)"
| "conforms (SRecord t) j =
     (case j of JObj kvs \<Rightarrow> list_all (\<lambda>kv. conforms t (snd kv)) kvs | _ \<Rightarrow> False)"
| "conforms (SObject fs) j =
     (case j of
        JObj kvs \<Rightarrow>
          (\<forall>f \<in> set fs.
             case map_of kvs (fst f) of
               None \<Rightarrow> \<not> fst (snd f)
             | Some x \<Rightarrow> conforms (snd (snd f)) x)
      | _ \<Rightarrow> False)"
| "conforms (SNullable t) j = (case j of JNull \<Rightarrow> True | _ \<Rightarrow> conforms t j)"

text \<open>
  A payload preserves the content of every field the shape models: values of basic
  type are the body's own; an array has the body's elements, one for one; an object
  has declared members only, has each declared member exactly when the body has it,
  and each member preserves the content of the body's member.
\<close>

fun preserved :: "shape \<Rightarrow> json \<Rightarrow> json \<Rightarrow> bool" where
  "preserved SString j v = (v = j)"
| "preserved SNumber j v = (v = j)"
| "preserved SBoolean j v = (v = j)"
| "preserved (SEnum vs) j v = (v = j)"
| "preserved (SUnion ts) j v = (\<exists>t \<in> set ts. preserved t j v)"
| "preserved (SArray t) j v =
     (case j of
        JArr xs \<Rightarrow> (case v of JArr ys \<Rightarrow> list_all2 (preserved t) xs ys | _ \<Rightarrow> False)
      | _ \<Rightarrow> False)"
| "preserved (SRecord t) j v =
     (case j of
        JObj kvs \<Rightarrow>
          (case v of
             JObj out \<Rightarrow> list_all2 (\<lambda>a b. fst b = fst a \<and> preserved t (snd a) (snd b)) kvs out
           | _ \<Rightarrow> False)
      | _ \<Rightarrow> False)"
| "preserved (SObject fs) j v =
     (case j of
        JObj kvs \<Rightarrow>
          (case v of
             JObj out \<Rightarrow>
               set (map fst out) \<subseteq> set (map fst fs) \<and>
               (\<forall>f \<in> set fs.
                  case map_of kvs (fst f) of
                    None \<Rightarrow> map_of out (fst f) = None
                  | Some x \<Rightarrow>
                      (case map_of out (fst f) of
                         None \<Rightarrow> False
                       | Some y \<Rightarrow> preserved (snd (snd f)) x y))
           | _ \<Rightarrow> False)
      | _ \<Rightarrow> False)"
| "preserved (SNullable t) j v = (case j of JNull \<Rightarrow> v = JNull | _ \<Rightarrow> preserved t j v)"

text \<open>The member names of an object schema are distinct, as the keys of \<open>z.object\<close> are.\<close>

fun well_formed :: "shape \<Rightarrow> bool" where
  "well_formed (SUnion ts) = list_all well_formed ts"
| "well_formed (SArray t) = well_formed t"
| "well_formed (SRecord t) = well_formed t"
| "well_formed (SNullable t) = well_formed t"
| "well_formed (SObject fs) =
     (distinct (map fst fs) \<and> list_all (\<lambda>f. well_formed (snd (snd f))) fs)"
| "well_formed _ = True"

text \<open>The schema each read operation parses its response with; a write parses nothing.\<close>

fun response_schema :: "env \<Rightarrow> operation_call \<Rightarrow> shape option" where
  "response_schema E (ListWorkflows owner repo pg per) = Some (WorkflowsSchema E)"
| "response_schema E (GetWorkflow owner repo wid) = Some (WorkflowSchema E)"
| "response_schema E (GetWorkflowUsage owner repo wid) = Some (WorkflowUsageSchema E)"
| "response_schema E (ListWorkflowRuns owner repo options) = Some (WorkflowRunsSchema E)"
| "response_schema E (GetWorkflowRun owner repo runId) = Some (WorkflowRunSchema E)"
| "response_schema E (GetWorkflowRunJobs owner repo runId flt pg per) = Some (JobsSchema E)"
| "response_schema E (TriggerWorkflow owner repo wid ref inputs) = None"
| "response_schema E (CancelWorkflowRun owner repo runId) = None"
| "response_schema E (RerunWorkflowRun owner repo runId) = None"

text \<open>A workflow as the platform returns it, and the same without its name.\<close>

definition workflow_body :: json where
  "workflow_body =
     JObj [(''id'', JNum 161335), (''node_id'', JStr ''MDg6V29ya2Zsb3cx''),
           (''name'', JStr ''CI''), (''state'', JStr ''active'')]"

definition nameless_body :: json where
  "nameless_body = JObj [(''id'', JNum 161335), (''state'', JStr ''active'')]"

section \<open>Basic facts\<close>

lemmas env_defs = example_env_def validateOwnerName_rules_def validateRepositoryName_rules_def
  owner_char_def repo_char_def alphanumeric_def

lemmas operation_defs = listWorkflows_def getWorkflow_def getWorkflowUsage_def
  listWorkflowRuns_def getWorkflowRun_def getWorkflowRunJobs_def triggerWorkflow_def
  cancelWorkflowRun_def rerunWorkflowRun_def

lemma octo_ok: "validateOwnerName (example_env net) ''octo'' = Inr ''octo''"
  by (simp add: env_defs)

lemma hello_ok: "validateRepositoryName (example_env net) ''hello'' = Inr ''hello''"
  by (simp add: env_defs)

lemma bad_owner:
  "validateOwnerName (example_env net) ''-bad''
     = Inl (GitHubValidationError ''Invalid owner name'' None)"
  by (simp add: env_defs)

lemma bad_repo:
  "validateRepositoryName (example_env net) ''has space''
     = Inl (GitHubValidationError ''Invalid repository name'' None)"
  by (simp add: env_defs)

text \<open>The digits written denote the number; a safe integer prints as its digits.\<close>

lemma digit_value_digit_char: "d < 10 \<Longrightarrow> digit_value (digit_char d) = d"
proof -
  assume "d < 10"
  then have "d = 0 \<or> d = 1 \<or> d = 2 \<or> d = 3 \<or> d = 4 \<or> d = 5 \<or> d = 6 \<or> d = 7
      \<or> d = 8 \<or> d = 9"
    by arith
  then show ?thesis
    by (auto simp: digit_value_def digit_char_def)
qed

lemma decimal_value_nat_to_string: "decimal_value (nat_to_string n) = n"
proof (induction n rule: nat_to_string.induct)
  case (1 n)
  show ?case
  proof (cases "n < 10")
    case True
    then show ?thesis
      by (simp add: nat_to_string.simps [of n] decimal_value_def digit_value_digit_char)
  next
    case False
    with 1 have "decimal_value (nat_to_string (n div 10)) = n div 10" by simp
    with False show ?thesis
      by (simp add: nat_to_string.simps [of n] decimal_value_def digit_value_digit_char)
  qed
qed

lemma number_to_string_safe:
  "is_safe_integer x \<Longrightarrow> number_to_string x = decimal_representation \<lfloor>x\<rfloor>"
  by (simp add: number_to_string_def)

lemma decimal_representation_value:
  "decimal_representation n =
     (if n < 0 then CHR ''-'' # decimal_representation (- n) else decimal_representation n)
   \<and> (0 \<le> n \<longrightarrow> int (decimal_value (decimal_representation n)) = n)"
  by (simp add: decimal_representation_def decimal_value_nat_to_string)

lemma snd_githubRequest: "snd (githubRequest E rq sent) = sent @ [rq]"
  by (simp add: githubRequest_def)

lemma snd_continue:
  "snd (case p of (Inl e, s) \<Rightarrow> (Inl e, s) | (Inr r, s) \<Rightarrow> (f r s, s)) = snd p"
  by (cases p; cases "fst p") auto

lemma lookup_skip:
  "k' \<noteq> k \<Longrightarrow> map_of (defined_params ((k', v) # ps)) k = map_of (defined_params ps) k"
  by (cases v) simp_all

lemma lookup_hit:
  "map_of (defined_params ((k, v) # ps)) k =
     (case v of None \<Rightarrow> map_of (defined_params ps) k | Some x \<Rightarrow> Some (qvalue_to_string x))"
  by (cases v) simp_all

text \<open>The one request \<open>listWorkflowRuns\<close> sends once both names are accepted.\<close>

lemma listWorkflowRuns_sent:
  assumes "validateOwnerName E owner = Inr ow" and "validateRepositoryName E repo = Inr rp"
  shows "snd (listWorkflowRuns E owner repo options sent) =
     sent @
     [\<lparr>url = buildUrl
         (if truthy (workflowId options)
          then ''https://api.github.com/repos/'' @ ow @ ''/'' @ rp @ ''/actions/workflows/''
                @ interpolate (workflowId options) @ ''/runs''
          else ''https://api.github.com/repos/'' @ ow @ ''/'' @ rp @ ''/actions/runs'')
         [(''actor'', map_option QString (actor options)),
          (''branch'', map_option QString (branch options)),
          (''event'', map_option QString (event options)),
          (''status'', map_option QString (status options)),
          (''created'', map_option QString (created options)),
          (''exclude_pull_requests'',
             if excludePullRequests options = Some True then Some (QString ''true'') else None),
          (''check_suite_id'', map_option QNumber (checkSuiteId options)),
          (''page'', map_option QNumber (page options)),
          (''per_page'', map_option QNumber (perPage options))],
       http_method = GET, body = None\<rparr>]"
  unfolding listWorkflowRuns_def Let_def
  by (simp only: assms sum.case snd_continue snd_githubRequest)

section \<open>The target path of the list-runs operation\<close>

text \<open>
  C1, as the code has it. \<open>listWorkflowRuns\<close> tests \<open>options.workflowId\<close> for truthiness.
  Once owner and repository name are accepted, the one request it sends targets the
  per-workflow runs path \<open>/repos/{owner}/{repo}/actions/workflows/{workflowId}/runs\<close>
  when \<open>workflowId\<close> is a non-empty string or a number other than zero, and the
  repository-wide runs path \<open>/repos/{owner}/{repo}/actions/runs\<close> when \<open>workflowId\<close> is
  absent, the empty string or zero.
\<close>

theorem listWorkflowRuns_target_path:
  assumes "validateOwnerName E owner = Inr ow" and "validateRepositoryName E repo = Inr rp"
  shows "map (base \<circ> url) (snd (listWorkflowRuns E owner repo options sent))
       = map (base \<circ> url) sent @
         [case workflowId options of
            None \<Rightarrow> ''https://api.github.com/repos/'' @ ow @ ''/'' @ rp @ ''/actions/runs''
          | Some (WfString s) \<Rightarrow>
              if s = []
              then ''https://api.github.com/repos/'' @ ow @ ''/'' @ rp @ ''/actions/runs''
              else ''https://api.github.com/repos/'' @ ow @ ''/'' @ rp
                     @ ''/actions/workflows/'' @ s @ ''/runs''
          | Some (WfNumber n) \<Rightarrow>
              if n = 0
              then ''https://api.github.com/repos/'' @ ow @ ''/'' @ rp @ ''/actions/runs''
              else ''https://api.github.com/repos/'' @ ow @ ''/'' @ rp
                     @ ''/actions/workflows/'' @ number_to_string n @ ''/runs'']"
proof (cases "workflowId options")
  case None
  then show ?thesis by (simp add: listWorkflowRuns_sent [OF assms] buildUrl_def)
next
  case (Some w)
  then show ?thesis
    by (cases w) (simp_all add: listWorkflowRuns_sent [OF assms] buildUrl_def)
qed

text \<open>A run with the workflow file name \<open>ci.yml\<close>.\<close>

theorem listWorkflowRuns_target_path_witness:
  "validateOwnerName (example_env silent) ''octo'' = Inr ''octo''
   \<and> validateRepositoryName (example_env silent) ''hello'' = Inr ''hello''
   \<and> map (base \<circ> url) (snd (listWorkflowRuns (example_env silent) ''octo'' ''hello''
        (no_options\<lparr>workflowId := Some (WfString ''ci.yml'')\<rparr>) []))
     = [''https://api.github.com/repos/octo/hello/actions/workflows/ci.yml/runs'']"
  using listWorkflowRuns_target_path [OF octo_ok hello_ok, of silent
      "no_options\<lparr>workflowId := Some (WfString ''ci.yml'')\<rparr>" "[]"]
  by (simp add: octo_ok hello_ok no_options_def)

text \<open>
  With the defined identifier \<open>0\<close> the request goes to the repository-wide path and not
  to the path of workflow \<open>0\<close>.
\<close>

theorem listWorkflowRuns_zero_workflowId_counterexample:
  "map (base \<circ> url) (snd (listWorkflowRuns (example_env silent) ''octo'' ''hello''
      (no_options\<lparr>workflowId := Some (WfNumber 0)\<rparr>) []))
   = [''https://api.github.com/repos/octo/hello/actions/runs'']
   \<and> map (base \<circ> url) (snd (listWorkflowRuns (example_env silent) ''octo'' ''hello''
      (no_options\<lparr>workflowId := Some (WfNumber 0)\<rparr>) []))
   \<noteq> [''https://api.github.com/repos/octo/hello/actions/workflows/0/runs'']"
  by (simp add: listWorkflowRuns_sent [OF octo_ok hello_ok] no_options_def buildUrl_def)

section \<open>The exclude-pull-requests flag\<close>

text \<open>
  C2, as the code has it. \<open>listWorkflowRuns\<close> passes \<open>"true"\<close> for the key
  \<open>exclude_pull_requests\<close> when \<open>excludePullRequests\<close> is true and \<open>undefined\<close> otherwise.
  Once owner and repository name are accepted, the query of the request holds the key
  \<open>exclude_pull_requests\<close> with the value \<open>true\<close> when \<open>excludePullRequests\<close> is true; the
  key is omitted when \<open>excludePullRequests\<close> is absent or false.
\<close>

theorem listWorkflowRuns_exclude_pull_requests:
  assumes "validateOwnerName E owner = Inr ow" and "validateRepositoryName E repo = Inr rp"
  shows "map (\<lambda>rq. map_of (query (url rq)) ''exclude_pull_requests'')
           (snd (listWorkflowRuns E owner repo options sent))
       = map (\<lambda>rq. map_of (query (url rq)) ''exclude_pull_requests'') sent @
         [if excludePullRequests options = Some True then Some ''true'' else None]"
proof -
  have "map_of (defined_params
          [(''actor'', a), (''branch'', b), (''event'', c), (''status'', d), (''created'', e),
           (''exclude_pull_requests'', x), (''check_suite_id'', f), (''page'', g),
           (''per_page'', h)]) ''exclude_pull_requests''
        = map_option qvalue_to_string x" for a b c d e f g h x
    by (cases x) (simp_all add: lookup_skip lookup_hit)
  then show ?thesis
    by (simp add: listWorkflowRuns_sent [OF assms] buildUrl_def)
qed

text \<open>A run with the flag set.\<close>

theorem listWorkflowRuns_exclude_pull_requests_witness:
  "validateOwnerName (example_env silent) ''octo'' = Inr ''octo''
   \<and> validateRepositoryName (example_env silent) ''hello'' = Inr ''hello''
   \<and> map (\<lambda>rq. map_of (query (url rq)) ''exclude_pull_requests'')
        (snd (listWorkflowRuns (example_env silent) ''octo'' ''hello''
           (no_options\<lparr>excludePullRequests := Some True\<rparr>) []))
     = [Some ''true'']"
  using listWorkflowRuns_exclude_pull_requests [OF octo_ok hello_ok, of silent
      "no_options\<lparr>excludePullRequests := Some True\<rparr>" "[]"]
  by (simp add: octo_ok hello_ok no_options_def)

text \<open>
  With the flag defined and false the key is absent from the query, where the value
  \<open>false\<close> was expected.
\<close>

theorem listWorkflowRuns_exclude_false_counterexample:
  "map (\<lambda>rq. map_of (query (url rq)) ''exclude_pull_requests'')
     (snd (listWorkflowRuns (example_env silent) ''octo'' ''hello''
        (no_options\<lparr>excludePullRequests := Some False\<rparr>) []))
   = [None]
   \<and> map (\<lambda>rq. map_of (query (url rq)) ''exclude_pull_requests'')
     (snd (listWorkflowRuns (example_env silent) ''octo'' ''hello''
        (no_options\<lparr>excludePullRequests := Some False\<rparr>) []))
   \<noteq> [Some ''false'']"
  by (simp add: listWorkflowRuns_sent [OF octo_ok hello_ok] no_options_def buildUrl_def)

section \<open>Validation comes before the network\<close>

lemma run_owner_fails:
  "validateOwnerName E (call_owner c) = Inl e \<Longrightarrow> run E c sent = (Inl e, sent)"
  by (cases c) (simp_all add: returning_def operation_defs)

lemma run_repo_fails:
  "validateOwnerName E (call_owner c) = Inr ow
   \<Longrightarrow> validateRepositoryName E (call_repo c) = Inl e
   \<Longrightarrow> run E c sent = (Inl e, sent)"
  by (cases c) (simp_all add: returning_def operation_defs)

text \<open>
  C5. For each of the nine operation functions and every input whose owner or
  repository name fails its validator, the operation raises and the list of requests
  sent is unchanged: the HTTP adapter is not invoked, and the outcome is the same
  whatever the network would have answered.
\<close>

theorem validation_failure_sends_nothing:
  assumes "isl (validateOwnerName E (call_owner c))
         \<or> isl (validateRepositoryName E (call_repo c))"
  shows "snd (run E c sent) = sent \<and> isl (fst (run E c sent))
       \<and> run (E\<lparr>transport := net\<rparr>) c sent = run E c sent"
proof (cases "validateOwnerName E (call_owner c)")
  case (Inl e)
  then have "validateOwnerName (E\<lparr>transport := net\<rparr>) (call_owner c) = Inl e" by simp
  then show ?thesis
    using Inl by (simp add: run_owner_fails)
next
  case (Inr ow)
  with assms obtain e where e: "validateRepositoryName E (call_repo c) = Inl e"
    by (auto simp: isl_def)
  have "validateOwnerName (E\<lparr>transport := net\<rparr>) (call_owner c) = Inr ow"
    and "validateRepositoryName (E\<lparr>transport := net\<rparr>) (call_repo c) = Inl e"
    using Inr e by simp_all
  then show ?thesis
    using Inr e by (simp add: run_repo_fails)
qed

text \<open>
  Cancelling a run for an owner name that starts with a hyphen, on a network that
  would have answered.
\<close>

theorem validation_failure_sends_nothing_witness:
  "isl (validateOwnerName (example_env (answering no_content)) ''-bad'')
   \<and> snd (run (example_env (answering no_content)) (CancelWorkflowRun ''-bad'' ''hello'' 7) [])
       = []
   \<and> isl (fst (run (example_env (answering no_content))
                 (CancelWorkflowRun ''-bad'' ''hello'' 7) []))"
proof -
  have h: "isl (validateOwnerName (example_env (answering no_content))
                  (call_owner (CancelWorkflowRun ''-bad'' ''hello'' 7)))
         \<or> isl (validateRepositoryName (example_env (answering no_content))
                  (call_repo (CancelWorkflowRun ''-bad'' ''hello'' 7)))"
    by (simp add: bad_owner)
  from validation_failure_sends_nothing [OF h, of "[]" silent]
  show ?thesis
    by (simp add: bad_owner)
qed

section \<open>One validation error at a time\<close>

text \<open>
  C4, as the code has it. Each operation calls the owner validator and then the
  repository-name validator, and a raise ends the operation. So an operation whose
  owner fails raises the owner validator's error, whatever the repository name is,
  and an operation whose owner passes and whose repository name fails raises the
  repository-name validator's error: the caller sees the first field error only, and
  no request is sent.
\<close>

theorem first_validation_error_only:
  "(validateOwnerName E (call_owner c) = Inl eo \<longrightarrow> run E c sent = (Inl eo, sent))
   \<and> (validateOwnerName E (call_owner c) = Inr ow
        \<and> validateRepositoryName E (call_repo c) = Inl er
        \<longrightarrow> run E c sent = (Inl er, sent))"
  by (simp add: run_owner_fails run_repo_fails)

text \<open>Reading a run with a bad owner and a bad repository name, then with a good owner.\<close>

theorem first_validation_error_only_witness:
  "validateOwnerName (example_env silent) ''-bad''
     = Inl (GitHubValidationError ''Invalid owner name'' None)
   \<and> run (example_env silent) (GetWorkflowRun ''-bad'' ''has space'' 7) []
     = (Inl (GitHubValidationError ''Invalid owner name'' None), [])
   \<and> validateOwnerName (example_env silent) ''octo'' = Inr ''octo''
   \<and> validateRepositoryName (example_env silent) ''has space''
     = Inl (GitHubValidationError ''Invalid repository name'' None)
   \<and> run (example_env silent) (GetWorkflowRun ''octo'' ''has space'' 7) []
     = (Inl (GitHubValidationError ''Invalid repository name'' None), [])"
  using first_validation_error_only [of "example_env silent"
      "GetWorkflowRun ''-bad'' ''has space'' 7"
      "GitHubValidationError ''Invalid owner name'' None" "[]"]
    first_validation_error_only [of "example_env silent"
      "GetWorkflowRun ''octo'' ''has space'' 7"
      _ "[]" "''octo''" "GitHubValidationError ''Invalid repository name'' None"]
  by (simp add: bad_owner bad_repo octo_ok)

text \<open>
  An owner that starts with a hyphen together with a repository name that contains a
  space: both validators reject their field, the error raised is the owner's alone,
  and it is the very outcome of the call in which the repository name is fine.
\<close>

theorem listWorkflows_two_bad_fields_counterexample:
  "validateOwnerName (example_env silent) ''-bad''
     = Inl (GitHubValidationError ''Invalid owner name'' None)
   \<and> validateRepositoryName (example_env silent) ''has space''
     = Inl (GitHubValidationError ''Invalid repository name'' None)
   \<and> fst (listWorkflows (example_env silent) ''-bad'' ''has space'' None None [])
     = Inl (GitHubValidationError ''Invalid owner name'' None)
   \<and> listWorkflows (example_env silent) ''-bad'' ''has space'' None None []
     = listWorkflows (example_env silent) ''-bad'' ''hello'' None None []"
  by (simp add: bad_owner bad_repo listWorkflows_def)

section \<open>Rate limiting and permission\<close>

text \<open>
  C3. For a 403 response that reports zero remaining rate-limit quota and has a reset
  header, the adapter raises the rate-limit error carrying the reset time parsed from
  that header; for a 403 response that does not report zero remaining quota it raises
  the permission error; and it raises the permission error in no other case of a 403
  response.
\<close>

theorem forbidden_classification:
  assumes "transport E rq = Responded r" and "http_status r = 403"
  shows "(\<forall>h. rate_limit_remaining r = Some ''0'' \<and> rate_limit_reset r = Some h
            \<longrightarrow> fst (githubRequest E rq sent)
                  = Inl (GitHubRateLimitError (Some (parse_reset E h))))
       \<and> (rate_limit_remaining r \<noteq> Some ''0''
            \<longrightarrow> fst (githubRequest E rq sent) = Inl GitHubPermissionError)
       \<and> (fst (githubRequest E rq sent) = Inl GitHubPermissionError
            \<longleftrightarrow> rate_limit_remaining r \<noteq> Some ''0'')"
  using assms by (simp add: githubRequest_def classify_response_def)

text \<open>The two 403 responses above, each put to the adapter.\<close>

theorem forbidden_classification_witness:
  "transport (example_env (answering exhausted)) probe = Responded exhausted
   \<and> http_status exhausted = 403
   \<and> fst (githubRequest (example_env (answering exhausted)) probe [])
       = Inl (GitHubRateLimitError (Some 1700000000))
   \<and> transport (example_env (answering forbidden)) probe = Responded forbidden
   \<and> http_status forbidden = 403
   \<and> fst (githubRequest (example_env (answering forbidden)) probe [])
       = Inl GitHubPermissionError"
proof -
  have t1: "transport (example_env (answering exhausted)) probe = Responded exhausted"
    and t2: "transport (example_env (answering forbidden)) probe = Responded forbidden"
    by (simp_all add: example_env_def answering_def)
  have s1: "http_status exhausted = 403" and s2: "http_status forbidden = 403"
    by (simp_all add: exhausted_def forbidden_def)
  have p: "parse_reset (example_env (answering exhausted)) ''1700000000'' = 1700000000"
    by (simp add: example_env_def decimal_value_def digit_value_def)
  have r1: "rate_limit_remaining exhausted = Some ''0''"
    and r1': "rate_limit_reset exhausted = Some ''1700000000''"
    by (simp_all add: exhausted_def)
  have r2: "rate_limit_remaining forbidden \<noteq> Some ''0''"
    by (simp add: forbidden_def)
  from forbidden_classification [OF t1 s1, of "[]"] r1 r1' p
  have a: "fst (githubRequest (example_env (answering exhausted)) probe [])
             = Inl (GitHubRateLimitError (Some 1700000000))"
    by simp
  from forbidden_classification [OF t2 s2, of "[]"] r2
  have b: "fst (githubRequest (example_env (answering forbidden)) probe [])
             = Inl GitHubPermissionError"
    by simp
  from t1 t2 s1 s2 a b show ?thesis by simp
qed

section \<open>The body of a dispatch\<close>

text \<open>The one request \<open>triggerWorkflow\<close> sends once both names are accepted.\<close>

lemma triggerWorkflow_sent:
  assumes "validateOwnerName E owner = Inr ow" and "validateRepositoryName E repo = Inr rp"
  shows "snd (triggerWorkflow E owner repo wid ref inputs sent) =
     sent @
     [\<lparr>url = plain_url (''https://api.github.com/repos/'' @ ow @ ''/'' @ rp
                  @ ''/actions/workflows/'' @ workflow_id_to_string wid @ ''/dispatches''),
       http_method = POST,
       body = Some (JObj (case inputs of
                     None \<Rightarrow> [(''ref'', JStr ref)]
                   | Some kvs \<Rightarrow>
                       if length (map fst kvs) > 0
                       then [(''ref'', JStr ref)] @ [(''inputs'', inputs_to_json kvs)]
                       else [(''ref'', JStr ref)]))\<rparr>]"
  unfolding triggerWorkflow_def Let_def
  by (simp only: assms sum.case snd_continue snd_githubRequest)

text \<open>
  C6. Once owner and repository name are accepted, \<open>triggerWorkflow\<close> sends one POST
  request to the dispatches endpoint of the workflow. When \<open>inputs\<close> is absent or the
  empty mapping, the body holds the key \<open>ref\<close> and nothing else; when \<open>inputs\<close> is a
  non-empty mapping, the body holds \<open>ref\<close> and, under the key \<open>inputs\<close>, the mapping as
  given: every key with its string, in order.
\<close>

theorem triggerWorkflow_body:
  assumes "validateOwnerName E owner = Inr ow" and "validateRepositoryName E repo = Inr rp"
  shows "map (\<lambda>rq. (base (url rq), http_method rq, body rq))
           (snd (triggerWorkflow E owner repo wid ref inputs sent))
       = map (\<lambda>rq. (base (url rq), http_method rq, body rq)) sent @
         [(''https://api.github.com/repos/'' @ ow @ ''/'' @ rp @ ''/actions/workflows/''
             @ workflow_id_to_string wid @ ''/dispatches'',
           POST,
           Some (JObj (case inputs of
                   None \<Rightarrow> [(''ref'', JStr ref)]
                 | Some kvs \<Rightarrow>
                     if kvs = [] then [(''ref'', JStr ref)]
                     else [(''ref'', JStr ref),
                           (''inputs'', JObj (map (\<lambda>kv. (fst kv, JStr (snd kv))) kvs))])))]"
  by (simp add: triggerWorkflow_sent [OF assms] plain_url_def inputs_to_json_def
      split: option.splits)

text \<open>A dispatch of \<open>ci.yml\<close> on \<open>main\<close>, with one input and with the empty mapping.\<close>

theorem triggerWorkflow_body_witness:
  "validateOwnerName (example_env silent) ''octo'' = Inr ''octo''
   \<and> validateRepositoryName (example_env silent) ''hello'' = Inr ''hello''
   \<and> map (\<lambda>rq. (base (url rq), http_method rq, body rq))
        (snd (triggerWorkflow (example_env silent) ''octo'' ''hello'' (WfString ''ci.yml'') ''main''
           (Some [(''target'', ''staging'')]) []))
     = [(''https://api.github.com/repos/octo/hello/actions/workflows/ci.yml/dispatches'', POST,
         Some (JObj [(''ref'', JStr ''main''),
                     (''inputs'', JObj [(''target'', JStr ''staging'')])]))]
   \<and> map (\<lambda>rq. (base (url rq), http_method rq, body rq))
        (snd (triggerWorkflow (example_env silent) ''octo'' ''hello'' (WfString ''ci.yml'') ''main''
           (Some []) []))
     = [(''https://api.github.com/repos/octo/hello/actions/workflows/ci.yml/dispatches'', POST,
         Some (JObj [(''ref'', JStr ''main'')]))]"
  using triggerWorkflow_body [OF octo_ok hello_ok, of silent "WfString ''ci.yml''" "''main''"
      "Some [(''target'', ''staging'')]" "[]"]
    triggerWorkflow_body [OF octo_ok hello_ok, of silent "WfString ''ci.yml''" "''main''"
      "Some []" "[]"]
  by (simp add: octo_ok hello_ok)

section \<open>The acknowledgment of a cancel and of a rerun\<close>

lemma githubRequest_2xx:
  assumes "transport E rq = Responded r" and "200 \<le> http_status r" and "http_status r < 300"
  shows "githubRequest E rq sent =
     (Inr (case response_body r of None \<Rightarrow> JNull | Some j \<Rightarrow> j), sent @ [rq])"
  using assms by (simp add: githubRequest_def classify_response_def split: option.splits)

lemma forty_two: "number_to_string 42 = ''42''"
  by (simp add: number_to_string_def is_safe_integer_def decimal_representation_def
      nat_to_string.simps digit_char_def)

lemma bit_length_numeral:
  "bit_length 0 = 0"
  "bit_length (Suc 0) = 1"
  "bit_length (numeral k) = Suc (bit_length (numeral k div 2))"
  by (simp_all add: bit_length.simps [of 0] bit_length.simps [of "Suc 0"]
      bit_length.simps [of "numeral k"])

lemma nat_to_string_numeral:
  "nat_to_string 0 = ''0''"
  "nat_to_string (Suc 0) = ''1''"
  "nat_to_string (numeral k) =
     (if numeral k < (10::nat) then [digit_char (numeral k)]
      else nat_to_string (numeral k div 10) @ [digit_char (numeral k mod 10)])"
  by (simp_all add: nat_to_string.simps [of 0] nat_to_string.simps [of "Suc 0"]
      nat_to_string.simps [of "numeral k"] digit_char_def)

lemma floor_tenth: "\<lfloor>(1::rat) / 10\<rfloor> = 0"
  by (simp add: floor_eq_iff)

text \<open>At the safe integer 42 the general rule gives the decimal digits too.\<close>

lemma floor_log2_small:
  "floor_log2 40 = 5" "floor_log2 42 = 5" "floor_log2 43 = 5" "floor_log2 50 = 5"
  "floor_log2 100 = 6"
  by (simp_all add: floor_log2_def power_of_def Let_def bit_length_numeral)

lemma to_double_small:
  "to_double 40 = 40" "to_double 42 = 42" "to_double 43 = 43" "to_double 50 = 50"
  "to_double 100 = 100"
  by (simp_all add: to_double_def floor_log2_small power_of_def Let_def round_half_even_def)

lemma floor_log10_forty_two: "floor_log10 42 = 1"
  by (simp add: floor_log10_def power_of_def Let_def nat_to_string_numeral)

lemma floor_small: "\<lfloor>(21::rat) / 5\<rfloor> = 4" "\<lfloor>(21::rat) / 50\<rfloor> = 0"
  by (simp_all add: floor_eq_iff)

lemma candidates_forty_two:
  "candidates 42 1 = []" "candidates 42 2 = [(2, 42)]"
  by (simp_all add: candidates_def floor_log10_forty_two power_of_def to_double_small
      floor_small)

lemma positive_forty_two: "positive_to_string 42 = ''42''"
  by (simp add: positive_to_string_def to_double_small candidates_forty_two render_def
      nat_to_string_numeral digit_char_def del: One_nat_def)

text \<open>
  The number \<open>10^21\<close> is a double and no safe integer. One digit is enough for it, so
  it prints in exponent notation.
\<close>

lemma floor_log10_sextillion: "floor_log10 1000000000000000000000 = 21"
  by (simp add: floor_log10_def power_of_def Let_def nat_to_string_numeral)

lemma floor_log2_sextillion:
  "floor_log2 1000000000000000000000 = 69"
  "floor_log2 2000000000000000000000 = 70"
  "floor_log2 10000000000000000000000 = 73"
  by (simp_all add: floor_log2_def power_of_def Let_def bit_length_numeral)

lemma to_double_sextillion:
  "to_double 1000000000000000000000 = 1000000000000000000000"
  "to_double 2000000000000000000000 = 2000000000000000000000"
  "to_double 10000000000000000000000 = 10000000000000000000000"
  by (simp_all add: to_double_def floor_log2_sextillion power_of_def Let_def
      round_half_even_def)

lemma candidates_sextillion: "candidates 1000000000000000000000 1 = [(22, 1)]"
  by (simp add: candidates_def floor_log10_sextillion power_of_def to_double_sextillion
      floor_tenth)

lemma sextillion: "number_to_string (10 ^ 21) = ''1e+21''"
  by (simp add: number_to_string_def is_safe_integer_def positive_to_string_def
      to_double_sextillion candidates_sextillion render_def nat_to_string_numeral
      digit_char_def del: One_nat_def)

lemma decimal_sextillion:
  "decimal_representation \<lfloor>(10::rat) ^ 21\<rfloor> = ''1000000000000000000000''"
  by (simp add: decimal_representation_def nat_to_string_numeral digit_char_def)

text \<open>
  C7, as the code has it. When owner and repository name are accepted and the network
  answers with a 2xx status and an empty body, \<open>cancelWorkflowRun\<close> and
  \<open>rerunWorkflowRun\<close> return the acknowledgment \<open>{success: true, message}\<close>, and the
  message contains the run identifier as the interpolation \<open>${runId}\<close> prints it. For
  a run identifier that is a safe integer that text is its decimal representation, so
  the message contains the decimal representation of the run identifier.
\<close>

theorem write_acknowledgment:
  assumes "validateOwnerName E owner = Inr ow" and "validateRepositoryName E repo = Inr rp"
    and "\<forall>rq. transport E rq = Responded r"
    and "200 \<le> http_status r" and "http_status r < 300" and "response_body r = None"
  shows "(\<exists>m. fst (cancelWorkflowRun E owner repo runId sent)
                = Inr \<lparr>success = True, message = m\<rparr>
            \<and> sublist (number_to_string runId) m
            \<and> (is_safe_integer runId \<longrightarrow> sublist (decimal_representation \<lfloor>runId\<rfloor>) m))
       \<and> (\<exists>m. fst (rerunWorkflowRun E owner repo runId sent)
                = Inr \<lparr>success = True, message = m\<rparr>
            \<and> sublist (number_to_string runId) m
            \<and> (is_safe_integer runId \<longrightarrow> sublist (decimal_representation \<lfloor>runId\<rfloor>) m))"
proof -
  have g: "githubRequest E rq sent = (Inr JNull, sent @ [rq])" for rq
    using githubRequest_2xx [of E rq r sent] assms(3-6) by simp
  have c: "fst (cancelWorkflowRun E owner repo runId sent)
         = Inr \<lparr>success = True,
                message = ''Workflow run '' @ number_to_string runId @ '' cancelled''\<rparr>"
    by (simp add: cancelWorkflowRun_def assms(1,2) g)
  have r: "fst (rerunWorkflowRun E owner repo runId sent)
         = Inr \<lparr>success = True,
                message = ''Workflow run '' @ number_to_string runId @ '' restarted''\<rparr>"
    by (simp add: rerunWorkflowRun_def assms(1,2) g)
  have s: "sublist (number_to_string runId) (''Workflow run '' @ number_to_string runId @ z)"
    for z
    by (rule sublist_appendI)
  have d: "is_safe_integer runId
      \<longrightarrow> sublist (decimal_representation \<lfloor>runId\<rfloor>)
            (''Workflow run '' @ number_to_string runId @ z)" for z
  proof
    assume "is_safe_integer runId"
    then have "number_to_string runId = decimal_representation \<lfloor>runId\<rfloor>"
      by (rule number_to_string_safe)
    with s [of z] show "sublist (decimal_representation \<lfloor>runId\<rfloor>)
            (''Workflow run '' @ number_to_string runId @ z)"
      by (simp only:)
  qed
  show ?thesis
    unfolding c r using s d by blast
qed

text \<open>Run 42 cancelled and restarted, on a network that answers 204 with no content.\<close>

theorem write_acknowledgment_witness:
  "is_safe_integer 42
   \<and> fst (cancelWorkflowRun (example_env (answering no_content)) ''octo'' ''hello'' 42 [])
     = Inr \<lparr>success = True, message = ''Workflow run 42 cancelled''\<rparr>
   \<and> fst (rerunWorkflowRun (example_env (answering no_content)) ''octo'' ''hello'' 42 [])
     = Inr \<lparr>success = True, message = ''Workflow run 42 restarted''\<rparr>
   \<and> sublist (decimal_representation \<lfloor>42::rat\<rfloor>) ''Workflow run 42 cancelled''
   \<and> sublist (decimal_representation \<lfloor>42::rat\<rfloor>) ''Workflow run 42 restarted''"
proof -
  have t: "\<forall>rq. transport (example_env (answering no_content)) rq = Responded no_content"
    by (simp add: example_env_def answering_def)
  have s: "200 \<le> http_status no_content" "http_status no_content < 300"
      "response_body no_content = None"
    by (simp_all add: no_content_def)
  have i: "is_safe_integer 42" by (simp add: is_safe_integer_def)
  have c: "fst (cancelWorkflowRun (example_env (answering no_content)) ''octo'' ''hello'' 42 [])
     = Inr \<lparr>success = True, message = ''Workflow run 42 cancelled''\<rparr>"
    and r: "fst (rerunWorkflowRun (example_env (answering no_content)) ''octo'' ''hello'' 42 [])
     = Inr \<lparr>success = True, message = ''Workflow run 42 restarted''\<rparr>"
    by (simp_all add: forty_two cancelWorkflowRun_def rerunWorkflowRun_def octo_ok hello_ok
        githubRequest_2xx [OF t [rule_format] s(1,2)] s(3))
  from write_acknowledgment [OF octo_ok hello_ok t s, of 42 "[]"] i
  show ?thesis
    unfolding c r by simp
qed

text \<open>
  Run \<open>10^21\<close> cancelled: the message reads \<open>1e+21\<close> and does not contain the decimal
  representation of the run identifier, which has twenty-one zeros.
\<close>

theorem cancelWorkflowRun_exponent_counterexample:
  "fst (cancelWorkflowRun (example_env (answering no_content)) ''octo'' ''hello'' (10 ^ 21) [])
     = Inr \<lparr>success = True, message = ''Workflow run 1e+21 cancelled''\<rparr>
   \<and> decimal_representation \<lfloor>(10::rat) ^ 21\<rfloor> = ''1000000000000000000000''
   \<and> \<not> sublist (decimal_representation \<lfloor>(10::rat) ^ 21\<rfloor>) ''Workflow run 1e+21 cancelled''"
proof -
  have t: "transport (example_env (answering no_content)) rq = Responded no_content" for rq
    by (simp add: example_env_def answering_def)
  have s: "200 \<le> http_status no_content" "http_status no_content < 300"
      "response_body no_content = None"
    by (simp_all add: no_content_def)
  have c: "fst (cancelWorkflowRun (example_env (answering no_content)) ''octo'' ''hello''
                  (10 ^ 21) [])
     = Inr \<lparr>success = True, message = ''Workflow run 1e+21 cancelled''\<rparr>"
    by (simp add: sextillion cancelWorkflowRun_def octo_ok hello_ok
        githubRequest_2xx [OF t s(1,2)] s(3) del: power_numeral)
  have "CHR ''0'' \<notin> set ''Workflow run 1e+21 cancelled''" by simp
  moreover have "CHR ''0'' \<in> set ''1000000000000000000000''" by simp
  ultimately have "\<not> sublist ''1000000000000000000000'' ''Workflow run 1e+21 cancelled''"
    using set_mono_sublist by blast
  with c decimal_sextillion show ?thesis by simp
qed

section \<open>The registered tools\<close>

lemmas schema_defs = ListWorkflowsSchema_def GetWorkflowSchema_def GetWorkflowUsageSchema_def
  ListWorkflowRunsSchema_def GetWorkflowRunSchema_def GetWorkflowRunJobsSchema_def
  TriggerWorkflowSchema_def CancelWorkflowRunSchema_def RerunWorkflowSchema_def

text \<open>
  C9, as the code has it. \<open>index.ts\<close> registers nine tools, one per capability and no
  two under one name, with the names and the required and optional parameters of the
  table of the external interfaces, except that the rerun tool is registered under the
  name \<open>rerun_workflow\<close>: a tool of that name exists, with the required parameters
  \<open>owner\<close>, \<open>repo\<close> and \<open>runId\<close> and no optional parameter.
\<close>

theorem tool_surface_names:
  "tool_surface =
     [(''list_workflows'', [''owner'', ''repo''], [''page'', ''perPage'']),
      (''get_workflow'', [''owner'', ''repo'', ''workflowId''], []),
      (''get_workflow_usage'', [''owner'', ''repo'', ''workflowId''], []),
      (''list_workflow_runs'', [''owner'', ''repo''],
         [''workflowId'', ''actor'', ''branch'', ''event'', ''status'', ''created'',
          ''excludePullRequests'', ''checkSuiteId'', ''page'', ''perPage'']),
      (''get_workflow_run'', [''owner'', ''repo'', ''runId''], []),
      (''get_workflow_run_jobs'', [''owner'', ''repo'', ''runId''],
         [''filter'', ''page'', ''perPage'']),
      (''trigger_workflow'', [''owner'', ''repo'', ''workflowId'', ''ref''], [''inputs'']),
      (''cancel_workflow_run'', [''owner'', ''repo'', ''runId''], []),
      (''rerun_workflow'', [''owner'', ''repo'', ''runId''], [])]
   \<and> distinct (map tool_name tools)
   \<and> map_option (\<lambda>t. (required_params (tool_params t), optional_params (tool_params t)))
         (find_tool ''rerun_workflow'')
       = Some ([''owner'', ''repo'', ''runId''], [])"
  by (simp add: tool_surface_def tools_def find_tool_def schema_defs)

text \<open>No tool is registered under the name \<open>rerun_workflow_run\<close>.\<close>

theorem rerun_workflow_run_counterexample:
  "find_tool ''rerun_workflow_run'' = None"
  by (simp add: find_tool_def tools_def)

section \<open>Schemas defined as another schema\<close>

text \<open>
  C10. \<open>GetWorkflowUsageSchema\<close> is \<open>GetWorkflowSchema\<close> and \<open>RerunWorkflowSchema\<close> is
  \<open>CancelWorkflowRunSchema\<close>: for every input, parsing under one schema of a pair
  succeeds with a given result exactly when parsing under the other does.
\<close>

theorem aliased_schemas:
  "GetWorkflowUsageSchema = GetWorkflowSchema
   \<and> RerunWorkflowSchema = CancelWorkflowRunSchema
   \<and> (\<forall>x. parse GetWorkflowUsageSchema x = parse GetWorkflowSchema x)
   \<and> (\<forall>x. parse RerunWorkflowSchema x = parse CancelWorkflowRunSchema x)"
  by (simp add: GetWorkflowUsageSchema_def RerunWorkflowSchema_def)

section \<open>Parsing the response of a read\<close>

lemma those_map_None: "those (map f xs) = None \<longleftrightarrow> (\<exists>x \<in> set xs. f x = None)"
  by (induction xs) (auto split: option.splits)

lemma those_map_Some:
  "those (map f xs) = Some ys \<longleftrightarrow> list_all2 (\<lambda>x y. f x = Some y) xs ys"
proof (induction xs arbitrary: ys)
  case Nil
  then show ?case by auto
next
  case (Cons x xs)
  then show ?case
    by (cases ys) (auto split: option.splits)
qed

lemma parse_union_None: "parse_union ts j = None \<longleftrightarrow> (\<forall>t \<in> set ts. parse t j = None)"
  by (induction ts) (auto split: option.splits)

lemma parse_union_Some: "parse_union ts j = Some v \<Longrightarrow> \<exists>t \<in> set ts. parse t j = Some v"
  by (induction ts) (auto split: option.splits)

lemma parse_fields_None:
  "parse_fields fs kvs = None \<longleftrightarrow>
     (\<exists>f \<in> set fs. case map_of kvs (fst f) of
                      None \<Rightarrow> fst (snd f)
                    | Some x \<Rightarrow> parse (snd (snd f)) x = None)"
  by (induction fs) (auto split: option.splits)

lemma parse_fields_keys:
  "parse_fields fs kvs = Some out \<Longrightarrow> set (map fst out) \<subseteq> set (map fst fs)"
proof (induction fs arbitrary: out)
  case Nil
  then show ?case by simp
next
  case (Cons g fs)
  show ?case
  proof (cases "map_of kvs (fst g)")
    case None
    with Cons.prems have "parse_fields fs kvs = Some out"
      by (auto split: if_splits)
    from Cons.IH [OF this] show ?thesis by auto
  next
    case (Some x)
    with Cons.prems obtain y rest where "parse_fields fs kvs = Some rest"
      and "out = (fst g, y) # rest"
      by (auto split: option.splits)
    with Cons.IH [of rest] show ?thesis by auto
  qed
qed

lemma parse_fields_Some:
  "parse_fields fs kvs = Some out \<Longrightarrow> distinct (map fst fs) \<Longrightarrow> f \<in> set fs \<Longrightarrow>
     (case map_of kvs (fst f) of
        None \<Rightarrow> map_of out (fst f) = None
      | Some x \<Rightarrow> parse (snd (snd f)) x \<noteq> None \<and> map_of out (fst f) = parse (snd (snd f)) x)"
proof (induction fs arbitrary: out)
  case Nil
  then show ?case by simp
next
  case (Cons g fs)
  show ?case
  proof (cases "map_of kvs (fst g)")
    case None
    with Cons.prems have rest: "parse_fields fs kvs = Some out" and opt: "\<not> fst (snd g)"
      by (auto split: if_splits)
    show ?thesis
    proof (cases "f = g")
      case True
      have "fst g \<notin> set (map fst out)"
        using parse_fields_keys [OF rest] Cons.prems(2) by auto
      then have "map_of out (fst g) = None"
        by (simp add: map_of_eq_None_iff)
      with None True show ?thesis by simp
    next
      case False
      with Cons.prems have "f \<in> set fs" "distinct (map fst fs)" by auto
      from Cons.IH [OF rest this(2) this(1)] show ?thesis .
    qed
  next
    case (Some x)
    with Cons.prems obtain y rest where y: "parse (snd (snd g)) x = Some y"
      and rest: "parse_fields fs kvs = Some rest" and out: "out = (fst g, y) # rest"
      by (auto split: option.splits)
    show ?thesis
    proof (cases "f = g")
      case True
      with Some y out show ?thesis by simp
    next
      case False
      with Cons.prems have f: "f \<in> set fs" and d: "distinct (map fst fs)" by auto
      from f Cons.prems(2) have ne: "fst f \<noteq> fst g" by (auto simp: image_iff)
      from Cons.IH [OF rest d f] ne out show ?thesis
        by (auto split: option.splits)
    qed
  qed
qed

lemma parse_None_iff: "parse sch j = None \<longleftrightarrow> \<not> conforms sch j"
proof (induction sch j rule: conforms.induct)
  case (5 ts j)
  then show ?case by (simp add: parse_union_None)
next
  case (6 t j)
  then show ?case
    by (cases j) (auto simp: those_map_None list_all_iff)
next
  case (7 t j)
  then show ?case
    by (cases j) (auto simp: those_map_None list_all_iff)
next
  case (8 fs j)
  show ?case
  proof (cases j)
    case (JObj kvs)
    have "(\<exists>f \<in> set fs. case map_of kvs (fst f) of
                      None \<Rightarrow> fst (snd f)
                    | Some x \<Rightarrow> parse (snd (snd f)) x = None)
        \<longleftrightarrow> \<not> (\<forall>f \<in> set fs. case map_of kvs (fst f) of
               None \<Rightarrow> \<not> fst (snd f)
             | Some x \<Rightarrow> conforms (snd (snd f)) x)"
      using "8.IH" [OF JObj] by (auto split: option.splits)
    with JObj show ?thesis by (simp add: parse_fields_None)
  qed simp_all
qed (auto split: json.splits)

lemma parse_preserved:
  "well_formed sch \<Longrightarrow> parse sch j = Some v \<Longrightarrow> preserved sch j v"
proof (induction sch j arbitrary: v rule: conforms.induct)
  case (5 ts j)
  from "5.prems"(2) have "parse_union ts j = Some v" by simp
  from parse_union_Some [OF this] obtain t where t: "t \<in> set ts" "parse t j = Some v"
    by blast
  from "5.prems"(1) t(1) have "well_formed t" by (simp add: list_all_iff)
  from "5.IH" [OF t(1) this t(2)] t(1) show ?case by auto
next
  case (6 t j)
  from "6.prems"(2) obtain xs ys where j: "j = JArr xs" and v: "v = JArr ys"
    and ys: "those (map (parse t) xs) = Some ys"
    by (cases j) auto
  from ys have "list_all2 (\<lambda>x y. parse t x = Some y) xs ys"
    by (simp add: those_map_Some)
  then have "list_all2 (preserved t) xs ys"
    using "6.IH" [OF j] "6.prems"(1) by (auto elim!: list.rel_mono_strong)
  with j v show ?case by simp
next
  case (7 t j)
  from "7.prems"(2) obtain kvs out where j: "j = JObj kvs" and v: "v = JObj out"
    and out: "those (map (\<lambda>kv. map_option (Pair (fst kv)) (parse t (snd kv))) kvs) = Some out"
    by (cases j) auto
  from out
  have "list_all2 (\<lambda>kv b. map_option (Pair (fst kv)) (parse t (snd kv)) = Some b) kvs out"
    by (simp add: those_map_Some)
  then have "list_all2 (\<lambda>a b. fst b = fst a \<and> preserved t (snd a) (snd b)) kvs out"
    using "7.IH" [OF j] "7.prems"(1) by (auto elim!: list.rel_mono_strong)
  with j v show ?case by simp
next
  case (8 fs j)
  from "8.prems"(2) obtain kvs out where j: "j = JObj kvs" and v: "v = JObj out"
    and out: "parse_fields fs kvs = Some out"
    by (cases j) auto
  from "8.prems"(1) have d: "distinct (map fst fs)"
    and wf: "\<And>f. f \<in> set fs \<Longrightarrow> well_formed (snd (snd f))"
    by (simp_all add: list_all_iff)
  have "case map_of kvs (fst f) of
          None \<Rightarrow> map_of out (fst f) = None
        | Some x \<Rightarrow>
            (case map_of out (fst f) of
               None \<Rightarrow> False
             | Some y \<Rightarrow> preserved (snd (snd f)) x y)" if f: "f \<in> set fs" for f
  proof (cases "map_of kvs (fst f)")
    case None
    with parse_fields_Some [OF out d f] show ?thesis by simp
  next
    case (Some x)
    with parse_fields_Some [OF out d f] obtain y where y: "parse (snd (snd f)) x = Some y"
      and o: "map_of out (fst f) = Some y"
      by auto
    from "8.IH" [OF j f Some wf [OF f] y] Some o show ?thesis by simp
  qed
  with parse_fields_keys [OF out] j v show ?case by simp
qed (auto split: json.splits if_splits)

text \<open>What a read operation returns on a 2xx response with a JSON body.\<close>

lemma run_read:
  assumes "validateOwnerName E (call_owner c) = Inr ow"
    and "validateRepositoryName E (call_repo c) = Inr rp"
    and "\<forall>rq. transport E rq = Responded r"
    and "200 \<le> http_status r" and "http_status r < 300" and "response_body r = Some j"
    and "response_schema E c = Some sch"
  shows "fst (run E c sent) =
     (case parse sch j of None \<Rightarrow> Inl ZodError | Some v \<Rightarrow> Inr (Payload v))"
proof -
  have g: "githubRequest E rq sent = (Inr j, sent @ [rq])" for rq
    using githubRequest_2xx [of E rq r sent] assms(3-6) by simp
  show ?thesis
    using assms(1,2,7)
    by (cases c)
      (simp_all add: operation_defs g schema_parse_def returning_def split: option.splits)
qed

text \<open>
  C8. For every read operation whose owner and repository name are accepted and every
  2xx response with a JSON body: when the body does not match the response shape of
  the operation, in particular when it lacks a required field or has a field of the
  wrong type, the operation raises zod's parse error and returns no object; when the
  body matches the shape, the operation returns a payload that preserves the content
  of every field the shape models.
\<close>

theorem read_response_parsing:
  assumes "validateOwnerName E (call_owner c) = Inr ow"
    and "validateRepositoryName E (call_repo c) = Inr rp"
    and "\<forall>rq. transport E rq = Responded r"
    and "200 \<le> http_status r" and "http_status r < 300" and "response_body r = Some j"
    and "response_schema E c = Some sch" and "well_formed sch"
  shows "(\<not> conforms sch j \<longrightarrow> fst (run E c sent) = Inl ZodError)
       \<and> (\<forall>fs kvs f. sch = SObject fs \<and> j = JObj kvs \<and> f \<in> set fs
              \<and> (case map_of kvs (fst f) of
                    None \<Rightarrow> fst (snd f)
                  | Some x \<Rightarrow> \<not> conforms (snd (snd f)) x)
            \<longrightarrow> fst (run E c sent) = Inl ZodError)
       \<and> (conforms sch j
            \<longrightarrow> (\<exists>v. fst (run E c sent) = Inr (Payload v) \<and> preserved sch j v))"
proof -
  note rr = run_read [OF assms(1-7), of sent]
  have mismatch: "fst (run E c sent) = Inl ZodError" if "\<not> conforms sch j"
    using that rr by (simp add: parse_None_iff [symmetric])
  have field: "\<not> conforms sch j"
    if "sch = SObject fs" "j = JObj kvs" "f \<in> set fs"
      "case map_of kvs (fst f) of None \<Rightarrow> fst (snd f) | Some x \<Rightarrow> \<not> conforms (snd (snd f)) x"
    for fs kvs f
  proof -
    from that(3,4) have "\<not> (case map_of kvs (fst f) of
             None \<Rightarrow> \<not> fst (snd f)
           | Some x \<Rightarrow> conforms (snd (snd f)) x)"
      by (cases "map_of kvs (fst f)") simp_all
    with that(3) have "\<not> (\<forall>f \<in> set fs. case map_of kvs (fst f) of
             None \<Rightarrow> \<not> fst (snd f)
           | Some x \<Rightarrow> conforms (snd (snd f)) x)"
      by blast
    with that(1,2) show ?thesis by simp
  qed
  have match: "\<exists>v. fst (run E c sent) = Inr (Payload v) \<and> preserved sch j v" if "conforms sch j"
  proof -
    from that obtain v where v: "parse sch j = Some v"
      using parse_None_iff [of sch j] by auto
    from parse_preserved [OF assms(8) v] rr v show ?thesis by simp
  qed
  from mismatch field match show ?thesis by blast
qed

text \<open>Reading workflow 161335, from a full body and from a body without the name.\<close>

theorem read_response_parsing_witness:
  "conforms (WorkflowSchema (example_env (answering (ok_json workflow_body)))) workflow_body
   \<and> (\<exists>v. fst (run (example_env (answering (ok_json workflow_body)))
                 (GetWorkflow ''octo'' ''hello'' (WfNumber 161335)) []) = Inr (Payload v)
          \<and> preserved (WorkflowSchema (example_env (answering (ok_json workflow_body))))
               workflow_body v)
   \<and> \<not> conforms (WorkflowSchema (example_env (answering (ok_json nameless_body)))) nameless_body
   \<and> fst (run (example_env (answering (ok_json nameless_body)))
            (GetWorkflow ''octo'' ''hello'' (WfNumber 161335)) []) = Inl ZodError"
proof -
  let ?c = "GetWorkflow ''octo'' ''hello'' (WfNumber 161335)"
  let ?sch = "SObject [(''id'', True, SNumber), (''name'', True, SString)]"
  have o: "validateOwnerName (example_env net) (call_owner ?c) = Inr ''octo''"
    and r: "validateRepositoryName (example_env net) (call_repo ?c) = Inr ''hello''" for net
    by (simp_all add: octo_ok hello_ok)
  have t: "\<forall>rq. transport (example_env (answering (ok_json b))) rq = Responded (ok_json b)" for b
    by (simp add: example_env_def answering_def)
  have s: "200 \<le> http_status (ok_json b)" "http_status (ok_json b) < 300"
      "response_body (ok_json b) = Some b" for b
    by (simp_all add: ok_json_def)
  have sch: "response_schema (example_env net) ?c = Some ?sch"
    and sch': "WorkflowSchema (example_env net) = ?sch" for net
    by (simp_all add: example_env_def)
  have wf: "well_formed ?sch" by simp
  have c1: "conforms ?sch workflow_body" by (simp add: workflow_body_def)
  have c2: "\<not> conforms ?sch nameless_body" by (simp add: nameless_body_def)
  from read_response_parsing [OF o r t s sch wf, of workflow_body "[]"]
    read_response_parsing [OF o r t s sch wf, of nameless_body "[]"] c1 c2
  show ?thesis by (simp add: sch')
qed

end
